theory Spec2Isabelle
  imports
    Main
    "HOL-Library.Word"
    "HOL-Library.Char_ord"
    "HOL-Library.List_Lexorder"
    "HOL-Library.Product_Lexorder"
    "HOL-Library.Multiset"
begin

text \<open>
  Remindly keeps a list of client appointments and triggers reminders through a webhook.
  The repository holds a browser application (\<^verbatim>\<open>App\<close>) that stores the list in
  \<^verbatim>\<open>localStorage\<close> and, when enabled, in a JSON file of a GitHub repository
  (\<^verbatim>\<open>services/storage.ts\<close>), and an Express server that keeps the list in SQLite. This
  theory embeds the storage service, the handlers of the application and the routes of the
  server as functions on explicit state, and proves what they do to the record set, to
  the local and the remote store, and in which order.
\<close>

section \<open>JavaScript text\<close>

text \<open>
  A JavaScript string is a sequence of UTF-16 code units. The browser code
  (\<^verbatim>\<open>App\<close>, \<^verbatim>\<open>services/storage.ts\<close>) works on such strings; the
  Express server keeps its text in SQLite, where a TEXT value is a byte string, modelled
  by HOL's \<^typ>\<open>string\<close>.
\<close>

type_synonym code_unit = "16 word"
type_synonym js_string = "code_unit list"

definition js :: "string \<Rightarrow> js_string" where
  "js s = map of_char s"

text \<open>Decimal rendering of an integer (\<^verbatim>\<open>Number.prototype.toString\<close> on the
  numbers this program prints: ids and HTTP status codes, all integers, and far below
  the size at which JavaScript changes to exponent notation).\<close>

function show_digits :: "int \<Rightarrow> string" where
  "show_digits n =
     (if n < 10 then [''0123456789'' ! nat n]
      else show_digits (n div 10) @ [''0123456789'' ! nat (n mod 10)])"
  by pat_completeness auto
termination
  by (relation "measure nat") auto

declare show_digits.simps [simp del]

definition show_int :: "int \<Rightarrow> string" where
  "show_int n = (if n < 0 then CHR ''-'' # show_digits (- n) else show_digits n)"

subsection \<open>\<^verbatim>\<open>btoa\<close> and \<^verbatim>\<open>atob\<close>\<close>

text \<open>
  \<^verbatim>\<open>btoa(s)\<close> throws \<^verbatim>\<open>InvalidCharacterError\<close> when \<^verbatim>\<open>s\<close> holds a code unit above
  \<^verbatim>\<open>0xFF\<close>; otherwise every code unit is one byte and the bytes are written in base64 with
  padding. \<^verbatim>\<open>atob\<close> is the forgiving base64 decoder: it drops ASCII whitespace, drops
  up to two trailing \<^verbatim>\<open>=\<close> when the length is a multiple of four, refuses a length
  that is 1 modulo 4 and any character outside the alphabet, and returns one code unit per
  byte.
\<close>

datatype exn =
    InvalidCharacterError
  | SyntaxError
  | TypeError
  | AbortError
  | Error js_string

definition b64_char :: "nat \<Rightarrow> nat" where
  "b64_char n =
     (if n < 26 then 65 + n
      else if n < 52 then 71 + n
      else if n < 62 then n - 4
      else if n = 62 then 43
      else 47)"

definition is_b64 :: "nat \<Rightarrow> bool" where
  "is_b64 c \<longleftrightarrow>
     (65 \<le> c \<and> c \<le> 90) \<or> (97 \<le> c \<and> c \<le> 122) \<or> (48 \<le> c \<and> c \<le> 57) \<or> c = 43 \<or> c = 47"

definition b64_value :: "nat \<Rightarrow> nat" where
  "b64_value c =
     (if 65 \<le> c \<and> c \<le> 90 then c - 65
      else if 97 \<le> c \<and> c \<le> 122 then c - 71
      else if 48 \<le> c \<and> c \<le> 57 then c + 4
      else if c = 43 then 62
      else 63)"

fun b64_encode :: "nat list \<Rightarrow> nat list" where
  "b64_encode [] = []"
| "b64_encode [a] =
     [b64_char (a div 4), b64_char ((a mod 4) * 16), 61, 61]"
| "b64_encode [a, b] =
     [b64_char (a div 4), b64_char ((a mod 4) * 16 + b div 16), b64_char ((b mod 16) * 4), 61]"
| "b64_encode (a # b # c # rest) =
     [b64_char (a div 4), b64_char ((a mod 4) * 16 + b div 16),
      b64_char ((b mod 16) * 4 + c div 64), b64_char (c mod 64)] @ b64_encode rest"

fun b64_decode :: "nat list \<Rightarrow> nat list" where
  "b64_decode (a # b # c # d # rest) =
     [a * 4 + b div 16, (b mod 16) * 16 + c div 4, (c mod 4) * 64 + d] @ b64_decode rest"
| "b64_decode [a, b, c] = [a * 4 + b div 16, (b mod 16) * 16 + c div 4]"
| "b64_decode [a, b] = [a * 4 + b div 16]"
| "b64_decode [a] = []"
| "b64_decode [] = []"

definition btoa :: "js_string \<Rightarrow> exn + js_string" where
  "btoa s =
     (if list_ex (\<lambda>c. 255 < c) s then Inl InvalidCharacterError
      else Inr (map of_nat (b64_encode (map unat s))))"

definition is_ascii_whitespace :: "code_unit \<Rightarrow> bool" where
  "is_ascii_whitespace c \<longleftrightarrow> c = 9 \<or> c = 10 \<or> c = 12 \<or> c = 13 \<or> c = 32"

definition strip_padding :: "nat list \<Rightarrow> nat list" where
  "strip_padding d =
     (if length d mod 4 = 0 \<and> d \<noteq> [] \<and> last d = 61 then
        (if butlast d \<noteq> [] \<and> last (butlast d) = 61 then butlast (butlast d) else butlast d)
      else d)"

definition atob :: "js_string \<Rightarrow> exn + js_string" where
  "atob s =
     (let d = strip_padding (map unat (filter (\<lambda>c. \<not> is_ascii_whitespace c) s))
      in if length d mod 4 = 1 \<or> list_ex (\<lambda>c. \<not> is_b64 c) d then Inl InvalidCharacterError
         else Inr (map of_nat (b64_decode (map b64_value d))))"

subsection \<open>\<^verbatim>\<open>JSON.stringify\<close>\<close>

text \<open>
  The JSON structure of a value, and ECMAScript's serialisation of it:
  \<^verbatim>\<open>QuoteJSONString\<close> escapes the quote, the backslash, the control characters and
  lone surrogates and writes every other code unit as it is;
  \<^verbatim>\<open>SerializeJSONArray\<close> and \<^verbatim>\<open>SerializeJSONObject\<close> indent by the gap when there is
  one. \<^verbatim>\<open>JSON.stringify(v)\<close> has the empty gap, \<^verbatim>\<open>JSON.stringify(v, null, 2)\<close> a gap
  of two spaces.
\<close>

datatype json =
    JNull
  | JBool bool
  | JNumber int
  | JString js_string
  | JArray "json list"
  | JObject "(js_string \<times> json) list"

definition hex_digit :: "nat \<Rightarrow> code_unit" where
  "hex_digit d = of_nat (if d < 10 then 48 + d else 87 + d)"

definition UnicodeEscape :: "code_unit \<Rightarrow> js_string" where
  "UnicodeEscape c =
     [92, 117] @ map hex_digit
       [unat c div 4096, unat c div 256 mod 16, unat c div 16 mod 16, unat c mod 16]"

definition is_leading_surrogate :: "code_unit \<Rightarrow> bool" where
  "is_leading_surrogate c \<longleftrightarrow> 0xD800 \<le> c \<and> c \<le> 0xDBFF"

definition is_trailing_surrogate :: "code_unit \<Rightarrow> bool" where
  "is_trailing_surrogate c \<longleftrightarrow> 0xDC00 \<le> c \<and> c \<le> 0xDFFF"

fun quote_units :: "js_string \<Rightarrow> js_string" where
  "quote_units [] = []"
| "quote_units (c # cs) =
     (if c = 8 then [92, 98] @ quote_units cs
      else if c = 9 then [92, 116] @ quote_units cs
      else if c = 10 then [92, 110] @ quote_units cs
      else if c = 12 then [92, 102] @ quote_units cs
      else if c = 13 then [92, 114] @ quote_units cs
      else if c = 34 then [92, 34] @ quote_units cs
      else if c = 92 then [92, 92] @ quote_units cs
      else if c < 32 then UnicodeEscape c @ quote_units cs
      else if is_leading_surrogate c then
        (case cs of
           [] \<Rightarrow> UnicodeEscape c
         | d # ds \<Rightarrow>
             if is_trailing_surrogate d then c # d # quote_units ds
             else UnicodeEscape c @ quote_units cs)
      else if is_trailing_surrogate c then UnicodeEscape c @ quote_units cs
      else c # quote_units cs)"

definition QuoteJSONString :: "js_string \<Rightarrow> js_string" where
  "QuoteJSONString s = [34] @ quote_units s @ [34]"

fun join :: "'a list \<Rightarrow> 'a list list \<Rightarrow> 'a list" where
  "join sep [] = []"
| "join sep [x] = x"
| "join sep (x # y # ys) = x @ sep @ join sep (y # ys)"

definition wrap_json :: "js_string \<Rightarrow> js_string \<Rightarrow> js_string \<Rightarrow> js_string \<Rightarrow> js_string list \<Rightarrow> js_string" where
  "wrap_json gap stepback opening closing partial =
     (if gap = [] then opening @ join [44] partial @ closing
      else opening @ [10] @ (stepback @ gap) @ join ([44, 10] @ (stepback @ gap)) partial
             @ [10] @ stepback @ closing)"

fun SerializeJSONProperty :: "js_string \<Rightarrow> js_string \<Rightarrow> json \<Rightarrow> js_string" where
  "SerializeJSONProperty gap indent JNull = js ''null''"
| "SerializeJSONProperty gap indent (JBool b) = js (if b then ''true'' else ''false'')"
| "SerializeJSONProperty gap indent (JNumber n) = js (show_int n)"
| "SerializeJSONProperty gap indent (JString s) = QuoteJSONString s"
| "SerializeJSONProperty gap indent (JArray xs) =
     (if xs = [] then js ''[]''
      else wrap_json gap indent [91] [93]
             (map (SerializeJSONProperty gap (indent @ gap)) xs))"
| "SerializeJSONProperty gap indent (JObject kvs) =
     (if kvs = [] then js ''{}''
      else wrap_json gap indent [123] [125]
             (map (\<lambda>kv. QuoteJSONString (fst kv) @ [58] @ (if gap = [] then [] else [32])
                          @ SerializeJSONProperty gap (indent @ gap) (snd kv)) kvs))"

definition JSON_stringify :: "nat \<Rightarrow> json \<Rightarrow> js_string" where
  "JSON_stringify space v = SerializeJSONProperty (replicate (min 10 space) 32) [] v"

section \<open>Data model\<close>

text \<open>
  \<^verbatim>\<open>interface Appointment\<close>: the four form fields, then \<^verbatim>\<open>id\<close> and
  \<^verbatim>\<open>status\<close>. The form state \<^verbatim>\<open>newAppt\<close> holds the four fields alone, and the
  object spread \<^verbatim>\<open>{...newAppt, id, status}\<close> is the record extension. The text type is a
  parameter: \<^typ>\<open>js_string\<close> in the browser, \<^typ>\<open>string\<close> in the server's table.
\<close>

datatype status = Pending | Sent

record 's appt_fields =
  client_name :: 's
  phone_number :: 's
  appointment_date :: 's
  appointment_time :: 's

record 's appointment = "'s appt_fields" +
  id' :: int
  status :: status

record AppSettings =
  n8n_webhook_url :: js_string
  use_github :: bool
  github_token :: js_string
  github_repo :: js_string
  github_path :: js_string
  github_branch :: js_string

record GitHubConfig =
  token :: js_string
  repo :: js_string
  path :: js_string
  branch :: js_string

definition json_of_status :: "status \<Rightarrow> json" where
  "json_of_status s = JString (js (case s of Pending \<Rightarrow> ''pending'' | Sent \<Rightarrow> ''sent''))"

text \<open>The JSON structure of an appointment object, keys in the order in which
  \<^verbatim>\<open>handleAddAppointment\<close> creates them.\<close>

definition json_of_appointment :: "js_string appointment \<Rightarrow> json" where
  "json_of_appointment a =
     JObject
       [(js ''client_name'', JString (client_name a)),
        (js ''phone_number'', JString (phone_number a)),
        (js ''appointment_date'', JString (appointment_date a)),
        (js ''appointment_time'', JString (appointment_time a)),
        (js ''id'', JNumber (id' a)),
        (js ''status'', json_of_status (status a))]"

definition json_of_appointments :: "js_string appointment list \<Rightarrow> json" where
  "json_of_appointments xs = JArray (map json_of_appointment xs)"

section \<open>The browser's world: \<^verbatim>\<open>fetch\<close>, \<^verbatim>\<open>localStorage\<close>, the console and alerts\<close>

text \<open>
  \<^verbatim>\<open>fetch\<close> is a parameter: a function from a request and the state of the network to a
  result (the promise rejects with an exception, or resolves to a response) and the next
  state of the network. A request's body is the value handed to \<^verbatim>\<open>JSON.stringify\<close>.
  \<^verbatim>\<open>response.json()\<close> and \<^verbatim>\<open>response.text()\<close> can fail too. Every effect is
  appended to the world's list of events, so that the order of effects can be stated.
\<close>

datatype http_method = GET | PUT | POST

datatype payload =
    NoBody
  | Fields "(string \<times> js_string) list"
  | AppointmentBody "js_string appointment"

record request =
  meth :: http_method
  url :: js_string
  headers :: "(string \<times> js_string) list"
  body :: payload

record response =
  status_code :: nat
  statusText :: js_string
  json_body :: "exn + (string \<times> js_string) list"
  text_body :: "exn + js_string"

definition ok :: "response \<Rightarrow> bool" where
  "ok r \<longleftrightarrow> 200 \<le> status_code r \<and> status_code r \<le> 299"

type_synonym 'n fetch = "request \<Rightarrow> 'n \<Rightarrow> (exn + response) \<times> 'n"

datatype event =
    is_LocalSet: LocalSet js_string js_string
  | is_Fetch: Fetch request
  | is_ConsoleError: ConsoleError js_string exn
  | is_Alert: Alert js_string

record 'n world =
  net :: 'n
  localStorage :: "js_string \<rightharpoonup> js_string"
  events :: "event list"

definition setItem :: "js_string \<Rightarrow> js_string \<Rightarrow> 'n world \<Rightarrow> 'n world" where
  "setItem key v w =
     w\<lparr>localStorage := (localStorage w)(key \<mapsto> v), events := events w @ [LocalSet key v]\<rparr>"

definition console_error :: "js_string \<Rightarrow> exn \<Rightarrow> 'n world \<Rightarrow> 'n world" where
  "console_error msg e w = w\<lparr>events := events w @ [ConsoleError msg e]\<rparr>"

definition alert :: "js_string \<Rightarrow> 'n world \<Rightarrow> 'n world" where
  "alert msg w = w\<lparr>events := events w @ [Alert msg]\<rparr>"

definition do_fetch :: "'n fetch \<Rightarrow> request \<Rightarrow> 'n world \<Rightarrow> (exn + response) \<times> 'n world" where
  "do_fetch fetch req w =
     (case fetch req (net w) of
        (r, n') \<Rightarrow> (r, w\<lparr>net := n', events := events w @ [Fetch req]\<rparr>))"

section \<open>\<^verbatim>\<open>services/storage.ts\<close>\<close>

subsection \<open>\<^verbatim>\<open>GitHubStorage\<close>\<close>

text \<open>The two requests of \<^verbatim>\<open>GitHubStorage\<close>: the \<^verbatim>\<open>GET\<close> of \<^verbatim>\<open>getFile\<close> and the
  \<^verbatim>\<open>PUT\<close> of \<^verbatim>\<open>saveData\<close>, whose body carries \<^verbatim>\<open>sha\<close> only when it is truthy (a
  non-empty string).\<close>

definition get_request :: "GitHubConfig \<Rightarrow> request" where
  "get_request config =
     \<lparr>meth = GET,
      url = js ''https://api.github.com/repos/'' @ repo config @ js ''/contents/''
              @ path config @ js ''?ref='' @ branch config,
      headers = [(''Authorization'', js ''token '' @ token config),
                 (''Accept'', js ''application/vnd.github.v3+json'')],
      body = NoBody\<rparr>"

definition put_request :: "GitHubConfig \<Rightarrow> js_string \<Rightarrow> js_string option \<Rightarrow> request" where
  "put_request config content sha =
     \<lparr>meth = PUT,
      url = js ''https://api.github.com/repos/'' @ repo config @ js ''/contents/''
              @ path config,
      headers = [(''Authorization'', js ''token '' @ token config),
                 (''Accept'', js ''application/vnd.github.v3+json''),
                 (''Content-Type'', js ''application/json'')],
      body = Fields
        ([(''message'', js ''Update Remindly data''),
          (''content'', content),
          (''branch'', branch config)]
         @ (case sha of
              None \<Rightarrow> []
            | Some v \<Rightarrow> if v = [] then [] else [(''sha'', v)]))\<rparr>"

definition getFile ::
  "'n fetch \<Rightarrow> GitHubConfig \<Rightarrow> 'n world \<Rightarrow> (exn + (string \<times> js_string) list option) \<times> 'n world" where
  "getFile fetch config w =
     (case do_fetch fetch (get_request config) w of
        (Inl e, w') \<Rightarrow> (Inl e, w')
      | (Inr response, w') \<Rightarrow>
          if status_code response = 404 then (Inr None, w')
          else if \<not> ok response then
            (Inl (Error (js ''GitHub API error: '' @ statusText response)), w')
          else
            (case json_body response of
               Inl e \<Rightarrow> (Inl e, w')
             | Inr file \<Rightarrow> (Inr (Some file), w')))"

text \<open>
  \<^verbatim>\<open>loadData\<close>: everything is inside \<^verbatim>\<open>try\<close>, and the \<^verbatim>\<open>catch\<close> logs and
  returns the default. \<^verbatim>\<open>JSON.parse\<close>, followed by the unchecked cast to \<^verbatim>\<open>T\<close>, is a
  parameter. A missing \<^verbatim>\<open>content\<close> is \<^verbatim>\<open>undefined\<close>, which \<^verbatim>\<open>atob\<close> reads as
  the text \<^verbatim>\<open>undefined\<close>. The result is a sum, as of any promise; \<^verbatim>\<open>Inl\<close> is a
  rejection.
\<close>

definition loadData ::
  "'n fetch \<Rightarrow> (js_string \<Rightarrow> exn + 'a) \<Rightarrow> GitHubConfig \<Rightarrow> 'a \<Rightarrow> 'n world \<Rightarrow> (exn + 'a) \<times> 'n world" where
  "loadData fetch JSON_parse config defaultValue w =
     (case getFile fetch config w of
        (Inl e, w') \<Rightarrow> (Inr defaultValue, console_error (js ''Error loading from GitHub:'') e w')
      | (Inr None, w') \<Rightarrow> (Inr defaultValue, w')
      | (Inr (Some file), w') \<Rightarrow>
          (case atob (case map_of file ''content'' of None \<Rightarrow> js ''undefined'' | Some c \<Rightarrow> c) of
             Inl e \<Rightarrow> (Inr defaultValue, console_error (js ''Error loading from GitHub:'') e w')
           | Inr content \<Rightarrow>
               (case JSON_parse content of
                  Inl e \<Rightarrow>
                    (Inr defaultValue, console_error (js ''Error loading from GitHub:'') e w')
                | Inr v \<Rightarrow> (Inr v, w'))))"

text \<open>
  \<^verbatim>\<open>saveData\<close>: no \<^verbatim>\<open>try\<close>. It reads the file for its \<^verbatim>\<open>sha\<close>, encodes the
  data, and issues one \<^verbatim>\<open>PUT\<close>. On a response that is not ok it throws an error with
  the API's message, or the status text when the message is missing or empty.
\<close>

definition saveData ::
  "'n fetch \<Rightarrow> GitHubConfig \<Rightarrow> json \<Rightarrow> 'n world \<Rightarrow> (exn + unit) \<times> 'n world" where
  "saveData fetch config data w =
     (case getFile fetch config w of
        (Inl e, w1) \<Rightarrow> (Inl e, w1)
      | (Inr existingFile, w1) \<Rightarrow>
          (let sha = (case existingFile of None \<Rightarrow> None | Some file \<Rightarrow> map_of file ''sha'')
           in case btoa (JSON_stringify 2 data) of
                Inl e \<Rightarrow> (Inl e, w1)
              | Inr content \<Rightarrow>
                  (case do_fetch fetch (put_request config content sha) w1 of
                     (Inl e, w2) \<Rightarrow> (Inl e, w2)
                   | (Inr response, w2) \<Rightarrow>
                       if \<not> ok response then
                         (case json_body response of
                            Inl e \<Rightarrow> (Inl e, w2)
                          | Inr err \<Rightarrow>
                              (Inl (Error (js ''GitHub Save Error: ''
                                 @ (case map_of err ''message'' of
                                      None \<Rightarrow> statusText response
                                    | Some m \<Rightarrow> if m = [] then statusText response else m))),
                               w2))
                       else (Inr (), w2))))"

subsection \<open>\<^verbatim>\<open>LocalStorageService\<close>\<close>

text \<open>\<^verbatim>\<open>localStorage.setItem\<close> is taken to succeed (the store is not full).\<close>

definition LocalStorageService_load ::
  "(js_string \<Rightarrow> exn + 'a) \<Rightarrow> js_string \<Rightarrow> 'a \<Rightarrow> 'n world \<Rightarrow> 'a" where
  "LocalStorageService_load JSON_parse key defaultValue w =
     (case localStorage w key of
        None \<Rightarrow> defaultValue
      | Some saved \<Rightarrow>
          if saved = [] then defaultValue
          else (case JSON_parse saved of Inl e \<Rightarrow> defaultValue | Inr v \<Rightarrow> v))"

definition LocalStorageService_save :: "js_string \<Rightarrow> json \<Rightarrow> 'n world \<Rightarrow> 'n world" where
  "LocalStorageService_save key data w = setItem key (JSON_stringify 0 data) w"

section \<open>The browser application \<^verbatim>\<open>App\<close>\<close>

text \<open>
  The React state that the handlers read and write: the appointment list, the settings and
  the form. A handler is a function from the state and the world to the next state and
  world; calls are sequential, each awaited before the next. The flags that only drive
  spinners and the modal (\<^verbatim>\<open>isLoading\<close>, \<^verbatim>\<open>isSaving\<close>, \<^verbatim>\<open>isAdding\<close>,
  \<^verbatim>\<open>triggeringIds\<close>) are left out. \<^verbatim>\<open>Date.now()\<close> is the argument \<open>now\<close>.
\<close>

record app =
  appointments :: "js_string appointment list"
  settings :: AppSettings
  newAppt :: "js_string appt_fields"

definition new_GitHubStorage :: "AppSettings \<Rightarrow> GitHubConfig" where
  "new_GitHubStorage s =
     \<lparr>token = github_token s, repo = github_repo s, path = github_path s,
      branch = github_branch s\<rparr>"

definition remote_enabled :: "AppSettings \<Rightarrow> bool" where
  "remote_enabled s \<longleftrightarrow> use_github s \<and> github_token s \<noteq> [] \<and> github_repo s \<noteq> []"

definition loadInitialData ::
  "'n fetch \<Rightarrow> (js_string \<Rightarrow> exn + js_string appointment list) \<Rightarrow> AppSettings \<Rightarrow>
     app \<Rightarrow> 'n world \<Rightarrow> app \<times> 'n world" where
  "loadInitialData fetch JSON_parse currentSettings st w =
     (if remote_enabled currentSettings then
        (case loadData fetch JSON_parse (new_GitHubStorage currentSettings) [] w of
           (Inr data, w') \<Rightarrow> (st\<lparr>appointments := data\<rparr>, w')
         | (Inl error, w') \<Rightarrow>
             (let w'' = console_error (js ''Error loading data:'') error w'
              in (st\<lparr>appointments :=
                       LocalStorageService_load JSON_parse (js ''remindly_appointments'') [] w''\<rparr>,
                  w'')))
      else
        (st\<lparr>appointments :=
               LocalStorageService_load JSON_parse (js ''remindly_appointments'') [] w\<rparr>, w))"

definition persistData ::
  "'n fetch \<Rightarrow> js_string appointment list \<Rightarrow> app \<Rightarrow> 'n world \<Rightarrow> app \<times> 'n world" where
  "persistData fetch newAppointments st w =
     (let st1 = st\<lparr>appointments := newAppointments\<rparr>;
          w1 = LocalStorageService_save (js ''remindly_appointments'')
                 (json_of_appointments newAppointments) w
      in if remote_enabled (settings st) then
           (case saveData fetch (new_GitHubStorage (settings st))
                   (json_of_appointments newAppointments) w1 of
              (Inl error, w2) \<Rightarrow> (st1, console_error (js ''Error persisting data:'') error w2)
            | (Inr u, w2) \<Rightarrow> (st1, w2))
         else (st1, w1))"

definition handleAddAppointment :: "'n fetch \<Rightarrow> int \<Rightarrow> app \<Rightarrow> 'n world \<Rightarrow> app \<times> 'n world" where
  "handleAddAppointment fetch now st w =
     (let appt = \<lparr>client_name = client_name (newAppt st),
                  phone_number = phone_number (newAppt st),
                  appointment_date = appointment_date (newAppt st),
                  appointment_time = appointment_time (newAppt st),
                  id' = now, status = Pending\<rparr>;
          updated = appointments st @ [appt]
      in case persistData fetch updated st w of
           (st', w') \<Rightarrow>
             (st'\<lparr>newAppt := \<lparr>client_name = [], phone_number = [],
                               appointment_date = [], appointment_time = []\<rparr>\<rparr>, w'))"

definition handleDelete :: "'n fetch \<Rightarrow> int \<Rightarrow> app \<Rightarrow> 'n world \<Rightarrow> app \<times> 'n world" where
  "handleDelete fetch i st w =
     persistData fetch (filter (\<lambda>a. id' a \<noteq> i) (appointments st)) st w"

definition webhook_request :: "js_string \<Rightarrow> js_string appointment \<Rightarrow> request" where
  "webhook_request u appt =
     \<lparr>meth = POST, url = u, headers = [(''Content-Type'', js ''application/json'')],
      body = AppointmentBody appt\<rparr>"

definition handleTrigger :: "'n fetch \<Rightarrow> int \<Rightarrow> app \<Rightarrow> 'n world \<Rightarrow> app \<times> 'n world" where
  "handleTrigger fetch i st w =
     (case find (\<lambda>a. id' a = i) (appointments st) of
        None \<Rightarrow> (st, alert (js ''Missing appointment data or n8n Webhook URL'') w)
      | Some appt \<Rightarrow>
          if n8n_webhook_url (settings st) = [] then
            (st, alert (js ''Missing appointment data or n8n Webhook URL'') w)
          else
            (case do_fetch fetch (webhook_request (n8n_webhook_url (settings st)) appt) w of
               (Inl error, w1) \<Rightarrow>
                 (st, alert (js (''Network error. Make sure your n8n webhook allows CORS ''
                                 @ ''or check your connection.''))
                        (console_error (js ''Error triggering:'') error w1))
             | (Inr res, w1) \<Rightarrow>
                 if ok res then
                   persistData fetch
                     (map (\<lambda>a. if id' a = i then a\<lparr>status := Sent\<rparr> else a) (appointments st))
                     st w1
                 else (st, alert (js ''n8n error: '' @ js (show_int (int (status_code res)))) w1)))"

section \<open>The Express server over SQLite\<close>

text \<open>
  The table \<^verbatim>\<open>appointments\<close> is a list of rows in insertion order; a row is an
  appointment with the column \<^verbatim>\<open>created_at\<close>. \<^verbatim>\<open>id INTEGER PRIMARY KEY
  AUTOINCREMENT\<close>: a new row's id is one more than the largest id the table has ever held,
  which SQLite keeps in \<^verbatim>\<open>sqlite_sequence\<close>. The table \<^verbatim>\<open>settings\<close> maps a key to
  its value (no row and a NULL value are both \<open>None\<close>). The database is taken to be
  available: a statement fails only on a constraint.
\<close>

record 's row = "'s appointment" +
  created_at :: 's

record db =
  appointments_table :: "string row list"
  sqlite_sequence :: int
  settings_table :: "string \<rightharpoonup> string"

datatype reply_body =
    Rows "string row list"
  | InsertedId int
  | Success
  | ErrorMessage string
  | InternalServerError

record reply =
  code :: nat
  content :: reply_body

text \<open>\<^verbatim>\<open>GET /api/appointments\<close>: \<^verbatim>\<open>ORDER BY appointment_date ASC, appointment_time
  ASC\<close>. SQLite compares TEXT bytewise (the BINARY collation), a proper prefix first:
  the lexicographic order of \<^typ>\<open>string\<close>. SQL leaves the order of rows with equal keys
  open; the model keeps them in table order.\<close>

definition get_appointments :: "db \<Rightarrow> reply" where
  "get_appointments d =
     \<lparr>code = 200,
      content = Rows (sort_key (\<lambda>r. (appointment_date r, appointment_time r))
                        (appointments_table d))\<rparr>"

text \<open>\<^verbatim>\<open>POST /api/appointments\<close>: the four fields of the request body, each absent
  (\<open>None\<close>) or a text. The handler checks nothing; a missing field violates \<^verbatim>\<open>NOT
  NULL\<close>, the statement throws and Express answers 500. \<open>now\<close> is
  \<^verbatim>\<open>CURRENT_TIMESTAMP\<close>.\<close>

definition next_rowid :: "db \<Rightarrow> int" where
  "next_rowid d = Max (insert (sqlite_sequence d) (id' ` set (appointments_table d))) + 1"

definition post_appointments :: "string \<Rightarrow> string option appt_fields \<Rightarrow> db \<Rightarrow> reply \<times> db" where
  "post_appointments now req d =
     (case (client_name req, phone_number req, appointment_date req, appointment_time req) of
        (Some n, Some p, Some da, Some ti) \<Rightarrow>
          (\<lparr>code = 200, content = InsertedId (next_rowid d)\<rparr>,
           d\<lparr>appointments_table := appointments_table d @
                [\<lparr>client_name = n, phone_number = p, appointment_date = da,
                  appointment_time = ti, id' = next_rowid d, status = Pending,
                  created_at = now\<rparr>],
             sqlite_sequence := next_rowid d\<rparr>)
      | _ \<Rightarrow> (\<lparr>code = 500, content = InternalServerError\<rparr>, d))"

text \<open>\<^verbatim>\<open>DELETE /api/appointments/:id\<close>: the statement deletes the rows it matches and the
  handler always answers \<^verbatim>\<open>{ success: true }\<close>.\<close>

definition delete_appointment :: "int \<Rightarrow> db \<Rightarrow> reply \<times> db" where
  "delete_appointment i d =
     (\<lparr>code = 200, content = Success\<rparr>,
      d\<lparr>appointments_table := filter (\<lambda>r. id' r \<noteq> i) (appointments_table d)\<rparr>)"

text \<open>\<^verbatim>\<open>POST /api/trigger-reminder/:id\<close>. The server's \<^verbatim>\<open>fetch\<close> posts the row to the
  webhook; it rejects with \<^verbatim>\<open>AbortError\<close> when the 15 second timer fires first. The
  server's state is the database, the network and a journal of its effects.\<close>

type_synonym 'n post_json = "string \<Rightarrow> string row \<Rightarrow> 'n \<Rightarrow> (exn + response) \<times> 'n"

datatype server_event =
    is_Posted: Posted string "string row"
  | Logged string

record 'n server =
  database :: db
  network :: 'n
  journal :: "server_event list"

definition server_fetch ::
  "'n post_json \<Rightarrow> string \<Rightarrow> string row \<Rightarrow> 'n server \<Rightarrow> (exn + response) \<times> 'n server" where
  "server_fetch fetch u a s =
     (case fetch u a (network s) of
        (r, n') \<Rightarrow> (r, s\<lparr>network := n', journal := journal s @ [Posted u a]\<rparr>))"

definition catch_trigger_error :: "exn \<Rightarrow> 'n server \<Rightarrow> reply \<times> 'n server" where
  "catch_trigger_error error s =
     ((if error = AbortError then
         \<lparr>code = 504, content = ErrorMessage ''Request to n8n timed out''\<rparr>
       else
         \<lparr>code = 500,
          content = ErrorMessage ''Failed to connect to n8n. Check your Webhook URL.''\<rparr>),
      s\<lparr>journal := journal s @ [Logged ''Trigger error:'']\<rparr>)"

definition trigger_reminder :: "'n post_json \<Rightarrow> int \<Rightarrow> 'n server \<Rightarrow> reply \<times> 'n server" where
  "trigger_reminder fetch i s =
     (case find (\<lambda>r. id' r = i) (appointments_table (database s)) of
        None \<Rightarrow> (\<lparr>code = 404, content = ErrorMessage ''Appointment not found''\<rparr>, s)
      | Some appointment \<Rightarrow>
          (case settings_table (database s) ''n8n_webhook_url'' of
             None \<Rightarrow>
               (\<lparr>code = 400,
                 content = ErrorMessage ''n8n Webhook URL not configured in settings''\<rparr>, s)
           | Some webhookUrl \<Rightarrow>
               if webhookUrl = [] then
                 (\<lparr>code = 400,
                   content = ErrorMessage ''n8n Webhook URL not configured in settings''\<rparr>, s)
               else
                 (case server_fetch fetch webhookUrl appointment s of
                    (Inl error, s1) \<Rightarrow> catch_trigger_error error s1
                  | (Inr response, s1) \<Rightarrow>
                      if ok response then
                        (\<lparr>code = 200, content = Success\<rparr>,
                         s1\<lparr>database := (database s1)
                              \<lparr>appointments_table :=
                                 map (\<lambda>r. if id' r = i then r\<lparr>status := Sent\<rparr> else r)
                                   (appointments_table (database s1))\<rparr>\<rparr>)
                      else
                        (case text_body response of
                           Inl error \<Rightarrow> catch_trigger_error error s1
                         | Inr errorText \<Rightarrow>
                             (\<lparr>code = 502,
                               content = ErrorMessage (''n8n returned an error: ''
                                           @ show_int (int (status_code response)))\<rparr>,
                              s1\<lparr>journal := journal s1 @ [Logged ''n8n error response:'']\<rparr>)))))"

section \<open>The remote content API\<close>

text \<open>
  Modelled from the spec: the file-content API behind \<^verbatim>\<open>GitHubStorage\<close> is an external
  service, not code of the repository. It keeps one file with its version token
  (\<^verbatim>\<open>sha\<close>): \<^verbatim>\<open>GET\<close> answers 404 when there is no file and the content with its
  version otherwise; \<^verbatim>\<open>PUT\<close> is a conditional write, accepted when the request's
  \<^verbatim>\<open>sha\<close> is the current version (or when there is neither a file nor a \<^verbatim>\<open>sha\<close>)
  and rejected with 409 or 422, the file untouched, otherwise. Other clients write too:
  \<open>concurrent\<close> lists, for each request served, the write another client makes right
  after it, if any. \<open>version_of\<close> computes the version token of a content.
\<close>

record github =
  remote_file :: "(js_string \<times> js_string) option"
  concurrent :: "(js_string \<times> js_string) option list"

definition json_response :: "nat \<Rightarrow> string \<Rightarrow> (string \<times> js_string) list \<Rightarrow> response" where
  "json_response c t fs =
     \<lparr>status_code = c, statusText = js t, json_body = Inr fs, text_body = Inr []\<rparr>"

definition serve ::
  "(js_string \<Rightarrow> js_string) \<Rightarrow> request \<Rightarrow> (js_string \<times> js_string) option \<Rightarrow>
     response \<times> (js_string \<times> js_string) option" where
  "serve version_of req f =
     (case (meth req, body req) of
        (GET, b) \<Rightarrow>
          (case f of
             None \<Rightarrow> (json_response 404 ''Not Found'' [(''message'', js ''Not Found'')], f)
           | Some (c, v) \<Rightarrow> (json_response 200 ''OK'' [(''content'', c), (''sha'', v)], f))
      | (PUT, Fields fs) \<Rightarrow>
          (case (map_of fs ''content'', f, map_of fs ''sha'') of
             (Some c, None, None) \<Rightarrow>
               (json_response 201 ''Created'' [(''sha'', version_of c)], Some (c, version_of c))
           | (Some c, Some (c0, v0), Some v) \<Rightarrow>
               if v = v0 then
                 (json_response 200 ''OK'' [(''sha'', version_of c)], Some (c, version_of c))
               else
                 (json_response 409 ''Conflict''
                    [(''message'', js ''the file does not match the given sha'')], f)
           | (Some c, None, Some v) \<Rightarrow>
               (json_response 409 ''Conflict''
                  [(''message'', js ''the file does not match the given sha'')], f)
           | _ \<Rightarrow>
               (json_response 422 ''Unprocessable Entity''
                  [(''message'', js ''Invalid request'')], f))
      | _ \<Rightarrow> (json_response 404 ''Not Found'' [(''message'', js ''Not Found'')], f))"

definition github_api :: "(js_string \<Rightarrow> js_string) \<Rightarrow> github fetch" where
  "github_api version_of req g =
     (case serve version_of req (remote_file g) of
        (resp, f') \<Rightarrow>
          (Inr resp,
           (case concurrent g of
              [] \<Rightarrow> g\<lparr>remote_file := f'\<rparr>
            | None # rest \<Rightarrow> \<lparr>remote_file = f', concurrent = rest\<rparr>
            | Some other # rest \<Rightarrow> \<lparr>remote_file = Some other, concurrent = rest\<rparr>)))"

section \<open>Properties of record sets, and concrete inputs\<close>

subsection \<open>The frame of a status change\<close>

text \<open>Between two lists of appointments (or rows), position by position: nothing but
  the status differs, and it differs only where the id is \<open>i\<close>, where it is
  \<^verbatim>\<open>sent\<close>.\<close>

definition only_status_changed ::
  "int \<Rightarrow> ('s, 'm) appointment_scheme list \<Rightarrow> ('s, 'm) appointment_scheme list \<Rightarrow> bool" where
  "only_status_changed i xs ys \<longleftrightarrow>
     length ys = length xs \<and>
     (\<forall>k < length xs.
        id' (ys ! k) = id' (xs ! k) \<and>
        client_name (ys ! k) = client_name (xs ! k) \<and>
        phone_number (ys ! k) = phone_number (xs ! k) \<and>
        appointment_date (ys ! k) = appointment_date (xs ! k) \<and>
        appointment_time (ys ! k) = appointment_time (xs ! k) \<and>
        appointment.more (ys ! k) = appointment.more (xs ! k) \<and>
        status (ys ! k) = (if id' (xs ! k) = i then Sent else status (xs ! k)))"

subsection \<open>Settings, appointments, networks\<close>

text \<open>\<^verbatim>\<open>DEFAULT_SETTINGS\<close> of the source, and settings with the remote store and the
  webhook configured.\<close>

definition DEFAULT_SETTINGS :: AppSettings where
  "DEFAULT_SETTINGS =
     \<lparr>n8n_webhook_url = [], use_github = False, github_token = [], github_repo = [],
      github_path = js ''remindly-data.json'', github_branch = js ''main''\<rparr>"

definition remote_settings :: AppSettings where
  "remote_settings =
     DEFAULT_SETTINGS\<lparr>n8n_webhook_url := js ''https://n8n.example/webhook/remind'',
       use_github := True, github_token := js ''ghp_token'', github_repo := js ''ana/data''\<rparr>"

definition ana :: "js_string appointment" where
  "ana =
     \<lparr>client_name = js ''Ana'', phone_number = js ''+1555'',
      appointment_date = js ''2025-03-01'', appointment_time = js ''09:00'',
      id' = 1740819600000, status = Pending\<rparr>"

text \<open>An appointment whose \<^verbatim>\<open>client_name\<close> is two CJK characters (U+5F20, U+4F1F).\<close>

definition zhang :: "js_string appointment" where
  "zhang =
     \<lparr>client_name = [0x5F20, 0x4F1F], phone_number = js ''+8613800000000'',
      appointment_date = js ''2025-03-02'', appointment_time = js ''10:30'',
      id' = 1740906000000, status = Pending\<rparr>"

definition app_with :: "AppSettings \<Rightarrow> js_string appointment list \<Rightarrow> app" where
  "app_with s xs =
     \<lparr>appointments = xs, settings = s,
      newAppt = \<lparr>client_name = [], phone_number = [], appointment_date = [],
                 appointment_time = []\<rparr>\<rparr>"

definition world_with :: "'n \<Rightarrow> (js_string \<rightharpoonup> js_string) \<Rightarrow> 'n world" where
  "world_with n ls = \<lparr>net = n, localStorage = ls, events = []\<rparr>"

text \<open>A network that is down (\<^verbatim>\<open>fetch\<close> rejects), and one where every request is
  answered with the given status.\<close>

definition offline :: "unit fetch" where
  "offline req n = (Inl TypeError, n)"

definition answering :: "nat \<Rightarrow> unit fetch" where
  "answering c req n = (Inr (json_response c ''status'' []), n)"

definition webhook_answering :: "nat \<Rightarrow> unit post_json" where
  "webhook_answering c u a n = (Inr (json_response c ''status'' []), n)"

text \<open>\<^verbatim>\<open>JSON.parse\<close> on the documents of a finite list of candidate values: the candidate
  that \<^verbatim>\<open>JSON.stringify\<close> writes as the given text (compact, or indented by two), and
  \<^verbatim>\<open>SyntaxError\<close> when there is none.\<close>

definition JSON_parse_among ::
  "js_string appointment list list \<Rightarrow> js_string \<Rightarrow> exn + js_string appointment list" where
  "JSON_parse_among candidates s =
     (case find (\<lambda>v. JSON_stringify 0 (json_of_appointments v) = s
                      \<or> JSON_stringify 2 (json_of_appointments v) = s) candidates of
        None \<Rightarrow> Inl SyntaxError
      | Some v \<Rightarrow> Inr v)"

text \<open>The server's table of the ordering scenario: two rows at 09:00, the later date
  inserted first.\<close>

definition scenario_row :: "int \<Rightarrow> string \<Rightarrow> string row" where
  "scenario_row i d =
     \<lparr>client_name = ''Ana'', phone_number = ''+1555'', appointment_date = d,
      appointment_time = ''09:00'', id' = i, status = Pending,
      created_at = ''2025-02-20 10:00:00''\<rparr>"

definition scenario_db :: db where
  "scenario_db =
     \<lparr>appointments_table = [scenario_row 1 ''2025-03-02'', scenario_row 2 ''2025-03-01''],
      sqlite_sequence = 2,
      settings_table = [''n8n_webhook_url'' \<mapsto> ''https://n8n.example/webhook/remind'']\<rparr>"

definition server_with :: "db \<Rightarrow> unit server" where
  "server_with d = \<lparr>database = d, network = (), journal = []\<rparr>"

text \<open>A remote API that always serves a file with the given fields, and a version token
  derived from the content.\<close>

definition serving :: "(string \<times> js_string) list \<Rightarrow> unit fetch" where
  "serving fs req n = (Inr (json_response 200 ''OK'' fs), n)"

definition content_version :: "js_string \<Rightarrow> js_string" where
  "content_version c = js ''blob-'' @ c"

subsection \<open>The parts of a base64 text\<close>

text \<open>The base64 text of a byte sequence without its padding, and the padding:
  \<^verbatim>\<open>b64_encode\<close> is the one followed by the other.\<close>

fun b64_body :: "nat list \<Rightarrow> nat list" where
  "b64_body [] = []"
| "b64_body [a] = [b64_char (a div 4), b64_char ((a mod 4) * 16)]"
| "b64_body [a, b] =
     [b64_char (a div 4), b64_char ((a mod 4) * 16 + b div 16), b64_char ((b mod 16) * 4)]"
| "b64_body (a # b # c # rest) =
     [b64_char (a div 4), b64_char ((a mod 4) * 16 + b div 16),
      b64_char ((b mod 16) * 4 + c div 64), b64_char (c mod 64)] @ b64_body rest"

fun b64_pad :: "nat list \<Rightarrow> nat list" where
  "b64_pad [] = []"
| "b64_pad [a] = [61, 61]"
| "b64_pad [a, b] = [61]"
| "b64_pad (a # b # c # rest) = b64_pad rest"

section \<open>What the handlers do to the state and the world\<close>

lemma do_fetch_frame:
  "do_fetch fetch req w = (r, w') \<Longrightarrow>
     localStorage w' = localStorage w \<and> events w' = events w @ [Fetch req]"
  by (auto simp: do_fetch_def split: prod.splits)

lemma getFile_frame:
  "getFile fetch config w = (r, w') \<Longrightarrow>
     localStorage w' = localStorage w \<and> events w' = events w @ [Fetch (get_request config)]"
  by (auto simp: getFile_def split: prod.splits sum.splits if_splits dest: do_fetch_frame)

lemma saveData_frame:
  "saveData fetch config data w = (r, w') \<Longrightarrow>
     localStorage w' = localStorage w \<and>
     (\<exists>es. events w' = events w @ es \<and> list_all is_Fetch es)"
  by (auto simp: saveData_def Let_def split: prod.splits sum.splits if_splits option.splits
      dest!: do_fetch_frame getFile_frame)

lemma persistData_appointments:
  "fst (persistData fetch xs st w) = st\<lparr>appointments := xs\<rparr>"
  by (auto simp: persistData_def Let_def split: prod.splits sum.splits)

lemma stringify_array_nonempty: "JSON_stringify space (JArray vs) \<noteq> []"
  by (simp add: JSON_stringify_def wrap_json_def js_def)

lemma persistData_world:
  "\<exists>rest. events (snd (persistData fetch xs st w)) =
       events w @ LocalSet (js ''remindly_appointments'')
                    (JSON_stringify 0 (json_of_appointments xs)) # rest
     \<and> list_all (\<lambda>e. \<not> is_LocalSet e \<and> \<not> is_Alert e) rest
     \<and> localStorage (snd (persistData fetch xs st w)) =
         (localStorage w)(js ''remindly_appointments'' \<mapsto>
            JSON_stringify 0 (json_of_appointments xs))"
proof (cases "remote_enabled (settings st)")
  case False
  then show ?thesis
    by (simp add: persistData_def Let_def LocalStorageService_save_def setItem_def)
next
  case True
  define w1 where
    "w1 = LocalStorageService_save (js ''remindly_appointments'') (json_of_appointments xs) w"
  obtain r w2 where sd:
    "saveData fetch (new_GitHubStorage (settings st)) (json_of_appointments xs) w1 = (r, w2)"
    by (cases "saveData fetch (new_GitHubStorage (settings st)) (json_of_appointments xs) w1")
  from saveData_frame[OF sd] obtain es where
    ls: "localStorage w2 = localStorage w1" and ev: "events w2 = events w1 @ es"
    and fe: "list_all is_Fetch es"
    by blast
  have nl: "list_all (\<lambda>e. \<not> is_LocalSet e \<and> \<not> is_Alert e) es"
    using fe by (induction es) (auto simp: event.disc_eq_case split: event.splits)
  have w1e: "events w1 = events w @ [LocalSet (js ''remindly_appointments'')
                                       (JSON_stringify 0 (json_of_appointments xs))]"
    and w1l: "localStorage w1 = (localStorage w)(js ''remindly_appointments'' \<mapsto>
                                   JSON_stringify 0 (json_of_appointments xs))"
    by (simp_all add: w1_def LocalStorageService_save_def setItem_def)
  show ?thesis
  proof (cases r)
    case (Inl e)
    then show ?thesis using True sd ls ev nl w1e w1l
      by (simp add: persistData_def Let_def w1_def[symmetric] console_error_def)
  next
    case (Inr u)
    then show ?thesis using True sd ls ev nl w1e w1l
      by (simp add: persistData_def Let_def w1_def[symmetric])
  qed
qed

lemma mark_only_status:
  "only_status_changed i xs (map (\<lambda>a. if id' a = i then a\<lparr>status := Sent\<rparr> else a) xs)"
  by (simp add: only_status_changed_def)

lemma mark_idem:
  "map (\<lambda>a. if id' a = i then a\<lparr>status := Sent\<rparr> else a)
     (map (\<lambda>a. if id' a = i then a\<lparr>status := Sent\<rparr> else a) xs) =
   map (\<lambda>a. if id' a = i then a\<lparr>status := Sent\<rparr> else a) xs"
  by (induction xs) auto

lemma find_mark:
  "find (\<lambda>a. id' a = i) xs = Some a \<Longrightarrow>
   find (\<lambda>a. id' a = i) (map (\<lambda>a. if id' a = i then a\<lparr>status := Sent\<rparr> else a) xs)
     = Some (a\<lparr>status := Sent\<rparr>)"
  by (induction xs) (auto split: if_splits)

lemma handleTrigger_ok:
  assumes "find (\<lambda>a. id' a = i) (appointments st) = Some appt"
    and "n8n_webhook_url (settings st) \<noteq> []"
    and "fst (fetch (webhook_request (n8n_webhook_url (settings st)) appt) (net w)) = Inr res"
    and "ok res"
  shows "fst (handleTrigger fetch i st w) =
           st\<lparr>appointments :=
                map (\<lambda>a. if id' a = i then a\<lparr>status := Sent\<rparr> else a) (appointments st)\<rparr>"
  using assms
  by (auto simp: handleTrigger_def do_fetch_def persistData_appointments split: prod.splits)

lemma handleTrigger_appointments_cases:
  "appointments (fst (handleTrigger fetch i st w)) = appointments st \<or>
   appointments (fst (handleTrigger fetch i st w)) =
     map (\<lambda>a. if id' a = i then a\<lparr>status := Sent\<rparr> else a) (appointments st)"
  by (auto simp: handleTrigger_def do_fetch_def persistData_appointments
      split: prod.splits option.splits sum.splits)

lemma trigger_reminder_ok:
  assumes "find (\<lambda>r. id' r = i) (appointments_table (database s)) = Some a"
    and "settings_table (database s) ''n8n_webhook_url'' = Some u" and "u \<noteq> []"
    and "fst (post u a (network s)) = Inr res" and "ok res"
  shows "trigger_reminder post i s =
           (\<lparr>code = 200, content = Success\<rparr>,
            s\<lparr>network := snd (post u a (network s)), journal := journal s @ [Posted u a],
              database := (database s)\<lparr>appointments_table :=
                 map (\<lambda>r. if id' r = i then r\<lparr>status := Sent\<rparr> else r)
                   (appointments_table (database s))\<rparr>\<rparr>)"
  using assms
  by (auto simp: trigger_reminder_def server_fetch_def split: prod.splits)

lemma trigger_reminder_table_cases:
  "appointments_table (database (snd (trigger_reminder post i s))) =
     appointments_table (database s) \<or>
   appointments_table (database (snd (trigger_reminder post i s))) =
     map (\<lambda>r. if id' r = i then r\<lparr>status := Sent\<rparr> else r) (appointments_table (database s))"
  by (auto simp: trigger_reminder_def server_fetch_def catch_trigger_error_def
      split: prod.splits option.splits sum.splits)

section \<open>Text encodings\<close>

subsection \<open>\<^verbatim>\<open>atob\<close> undoes \<^verbatim>\<open>btoa\<close> on Latin-1 text\<close>

lemma b64_char_props:
  "n < 64 \<Longrightarrow> is_b64 (b64_char n) \<and> b64_value (b64_char n) = n \<and> b64_char n \<noteq> 61
     \<and> b64_char n < 256"
  by (auto simp: b64_char_def is_b64_def b64_value_def)

lemma sextets:
  "a < 256 \<Longrightarrow> a div 4 < (64::nat)"
  "b < 256 \<Longrightarrow> (a mod 4) * 16 + b div 16 < (64::nat)"
  "c < 256 \<Longrightarrow> (b mod 16) * 4 + c div 64 < (64::nat)"
  "(a mod 4) * 16 < (64::nat)" "(b mod 16) * 4 < (64::nat)" "c mod 64 < (64::nat)"
  by arith+

lemma body_chars:
  "list_all (\<lambda>b. b < 256) bs \<Longrightarrow> list_all (\<lambda>c. is_b64 c \<and> c \<noteq> 61 \<and> c < 256) (b64_body bs)"
  by (induction bs rule: b64_body.induct) (auto simp: b64_char_props sextets)

lemma body_length: "length (b64_body bs) mod 4 \<noteq> 1"
  by (induction bs rule: b64_body.induct) auto

lemma encode_body: "b64_encode bs = b64_body bs @ b64_pad bs"
  by (induction bs rule: b64_body.induct) auto

lemma pad_cases: "b64_pad bs = [] \<or> b64_pad bs = [61] \<or> b64_pad bs = [61, 61]"
  by (induction bs rule: b64_pad.induct) auto

lemma encode_length: "length (b64_encode bs) mod 4 = 0"
  by (induction bs rule: b64_encode.induct) auto

lemma d16: "b < 256 \<Longrightarrow> b div 16 < (16::nat)" by arith

lemma d64: "c < 256 \<Longrightarrow> c div 64 < (4::nat)" by arith

lemma b64_value_char: "n < 64 \<Longrightarrow> b64_value (b64_char n) = n"
  by (simp add: b64_char_props)

lemma decode_body:
  "list_all (\<lambda>b. b < 256) bs \<Longrightarrow> b64_decode (map b64_value (b64_body bs)) = bs"
proof (induction bs rule: b64_body.induct)
  case 1
  then show ?case by simp
next
  case (2 a)
  then show ?case by (simp add: b64_value_char sextets d16 d64)
next
  case (3 a b)
  then show ?case by (simp add: b64_value_char sextets d16 d64)
next
  case (4 a b c rest)
  then have "b64_decode (map b64_value (b64_body rest)) = rest" by simp
  moreover from 4 have "a < 256" "b < 256" "c < 256" by simp_all
  ultimately show ?case by (simp add: b64_value_char sextets d16 d64)
qed

lemma strip_encode:
  assumes "list_all (\<lambda>b. b < 256) bs"
  shows "strip_padding (b64_encode bs) = b64_body bs"
proof -
  have len: "length (b64_body bs @ b64_pad bs) mod 4 = 0"
    using encode_length[of bs] by (simp add: encode_body)
  have nl: "b64_body bs \<noteq> [] \<Longrightarrow> last (b64_body bs) \<noteq> 61"
    using body_chars[OF assms] by (metis (mono_tags, lifting) last_in_set list_all_iff)
  from pad_cases[of bs] show ?thesis
  proof (elim disjE)
    assume p: "b64_pad bs = []"
    then show ?thesis using nl by (auto simp: strip_padding_def encode_body)
  next
    assume p: "b64_pad bs = [61]"
    with len have "b64_body bs \<noteq> []" by auto
    then show ?thesis using p nl len by (simp add: strip_padding_def encode_body)
  next
    assume p: "b64_pad bs = [61, 61]"
    then show ?thesis using len by (simp add: strip_padding_def encode_body butlast_append)
  qed
qed

lemma unat_of_nat_small: "list_all (\<lambda>c. c < 256) xs \<Longrightarrow> map unat (map of_nat xs :: 16 word list) = xs"
  by (induction xs) (auto simp: unat_of_nat)

lemma no_whitespace:
  "list_all (\<lambda>c. (is_b64 c \<or> c = 61) \<and> c < 256) xs \<Longrightarrow>
     filter (\<lambda>c. \<not> is_ascii_whitespace c) (map of_nat xs :: 16 word list) = map of_nat xs"
proof (induction xs)
  case Nil
  then show ?case by simp
next
  case (Cons x xs)
  then have x: "(is_b64 x \<or> x = 61) \<and> x < 256" by simp
  have "\<not> is_ascii_whitespace (of_nat x :: 16 word)"
  proof
    assume "is_ascii_whitespace (of_nat x :: 16 word)"
    then have "unat (of_nat x :: 16 word) \<in> {9, 10, 12, 13, 32}"
      by (auto simp: is_ascii_whitespace_def)
    moreover have "unat (of_nat x :: 16 word) = x" using x by (simp add: unat_of_nat)
    ultimately show False using x by (auto simp: is_b64_def)
  qed
  with Cons show ?case by simp
qed

lemma encode_chars:
  assumes "list_all (\<lambda>b. b < 256) bs"
  shows "list_all (\<lambda>c. (is_b64 c \<or> c = 61) \<and> c < 256) (b64_encode bs)"
proof -
  have "list_all (\<lambda>c. (is_b64 c \<or> c = 61) \<and> c < 256) (b64_body bs)"
    using body_chars[OF assms] by (induction "b64_body bs") (auto simp: list_all_iff)
  moreover have "list_all (\<lambda>c. (is_b64 c \<or> c = 61) \<and> c < 256) (b64_pad bs)"
    using pad_cases[of bs] by auto
  ultimately show ?thesis by (simp add: encode_body)
qed

lemma latin1_bytes: "\<not> list_ex (\<lambda>c. 255 < c) (s :: js_string) \<Longrightarrow> list_all (\<lambda>b. b < 256) (map unat s)"
  by (induction s) (auto simp: word_less_nat_alt not_less word_le_nat_alt)

lemma atob_btoa:
  assumes "\<not> list_ex (\<lambda>c. 255 < c) s"
  shows "\<exists>t. btoa s = Inr t \<and> atob t = Inr s"
proof -
  let ?bs = "map unat s"
  let ?t = "map of_nat (b64_encode ?bs) :: js_string"
  have bytes: "list_all (\<lambda>b. b < 256) ?bs" using assms by (rule latin1_bytes)
  have b: "btoa s = Inr ?t" using assms by (simp add: btoa_def)
  have chars: "list_all (\<lambda>c. (is_b64 c \<or> c = 61) \<and> c < 256) (b64_encode ?bs)"
    using bytes by (rule encode_chars)
  have f: "filter (\<lambda>c. \<not> is_ascii_whitespace c) ?t = ?t"
    using chars by (rule no_whitespace)
  have u: "map unat ?t = b64_encode ?bs"
    using chars by (intro unat_of_nat_small) (auto simp: list_all_iff)
  have sp: "strip_padding (map unat (filter (\<lambda>c. \<not> is_ascii_whitespace c) ?t)) = b64_body ?bs"
    unfolding f u using bytes by (rule strip_encode)
  have ok1: "length (b64_body ?bs) mod 4 \<noteq> 1" by (rule body_length)
  have ok2: "\<not> list_ex (\<lambda>c. \<not> is_b64 c) (b64_body ?bs)"
    using body_chars[OF bytes] by (auto simp: list_all_iff list_ex_iff)
  have rt: "map of_nat (map unat s) = s" by (induction s) auto
  have "atob ?t = Inr s"
    unfolding atob_def sp Let_def using ok1 ok2 decode_body[OF bytes] rt by simp
  with b show ?thesis by blast
qed

subsection \<open>\<^verbatim>\<open>JSON.stringify\<close> writes a non-Latin-1 character of a name as it is\<close>

lemma quote_units_plain:
  "255 < c \<Longrightarrow> \<not> is_leading_surrogate c \<Longrightarrow> \<not> is_trailing_surrogate c
     \<Longrightarrow> quote_units (c # cs) = c # quote_units cs"
  by (auto simp: word_less_nat_alt)

lemma quote_units_step:
  "set (quote_units xs) \<subseteq> set (quote_units (x # xs)) \<or>
   (\<exists>d ds. xs = d # ds \<and> is_trailing_surrogate d \<and>
            quote_units (x # xs) = x # d # quote_units ds)"
proof (cases xs)
  case Nil
  then show ?thesis by (simp del: quote_units.simps(2))
next
  case (Cons d ds)
  define q where "q = quote_units xs"
  have u: "quote_units (x # xs) =
     (if x = 8 then [92, 98] @ q
      else if x = 9 then [92, 116] @ q
      else if x = 10 then [92, 110] @ q
      else if x = 12 then [92, 102] @ q
      else if x = 13 then [92, 114] @ q
      else if x = 34 then [92, 34] @ q
      else if x = 92 then [92, 92] @ q
      else if x < 32 then UnicodeEscape x @ q
      else if is_leading_surrogate x then
        (if is_trailing_surrogate d then x # d # quote_units ds
         else UnicodeEscape x @ q)
      else if is_trailing_surrogate x then UnicodeEscape x @ q
      else x # q)"
    unfolding q_def by (subst quote_units.simps(2)) (simp only: Cons list.case)
  show ?thesis
    unfolding u q_def[symmetric] using Cons
    by (simp del: quote_units.simps) blast
qed

lemma quote_units_keeps:
  "c \<in> set s \<Longrightarrow> 255 < c \<Longrightarrow> \<not> is_leading_surrogate c \<Longrightarrow> \<not> is_trailing_surrogate c
     \<Longrightarrow> c \<in> set (quote_units s)"
proof (induction s rule: length_induct)
  case (1 s)
  show ?case
  proof (cases s)
    case Nil
    with 1 show ?thesis by simp
  next
    case (Cons x xs)
    show ?thesis
    proof (cases "c = x")
      case True
      with 1(3-) Cons show ?thesis by (simp add: quote_units_plain del: quote_units.simps)
    next
      case False
      with 1(2) Cons have cx: "c \<in> set xs" by simp
      from quote_units_step[of xs x] show ?thesis
      proof
        assume "set (quote_units xs) \<subseteq> set (quote_units (x # xs))"
        moreover have "c \<in> set (quote_units xs)"
          using 1 cx Cons by simp
        ultimately show ?thesis using Cons by blast
      next
        assume "\<exists>d ds. xs = d # ds \<and> is_trailing_surrogate d \<and>
            quote_units (x # xs) = x # d # quote_units ds"
        then obtain d ds where d: "xs = d # ds" "is_trailing_surrogate d"
          "quote_units (x # xs) = x # d # quote_units ds" by blast
        with cx 1(5) have "c \<in> set ds" by auto
        then have "c \<in> set (quote_units ds)"
          using 1 d Cons by simp
        with d Cons show ?thesis by (simp del: quote_units.simps)
      qed
    qed
  qed
qed

lemma join_keeps: "x \<in> set xs \<Longrightarrow> c \<in> set x \<Longrightarrow> c \<in> set (join sep xs)"
  by (induction sep xs rule: join.induct) auto

lemma wrap_json_keeps: "x \<in> set xs \<Longrightarrow> c \<in> set x \<Longrightarrow> c \<in> set (wrap_json gap ind l r xs)"
  by (auto simp: wrap_json_def dest: join_keeps)

lemma ser_object_keeps:
  assumes "(k, JString v) \<in> set kvs" "c \<in> set (QuoteJSONString v)"
  shows "c \<in> set (SerializeJSONProperty gap ind (JObject kvs))"
proof -
  let ?f = "\<lambda>kv. QuoteJSONString (fst kv) @ [58] @ (if gap = [] then [] else [32])
                    @ SerializeJSONProperty gap (ind @ gap) (snd kv)"
  have "?f (k, JString v) \<in> set (map ?f kvs)"
    unfolding set_map by (rule image_eqI[where x = "(k, JString v)"]) (simp_all add: assms(1))
  moreover have "c \<in> set (?f (k, JString v))"
    using assms(2) by simp
  ultimately have "c \<in> set (wrap_json gap ind [123] [125] (map ?f kvs))"
    by (rule wrap_json_keeps)
  moreover have "kvs \<noteq> []" using assms(1) by auto
  ultimately show ?thesis by simp
qed

lemma ser_array_keeps:
  assumes "v \<in> set vs" "c \<in> set (SerializeJSONProperty gap (ind @ gap) v)"
  shows "c \<in> set (SerializeJSONProperty gap ind (JArray vs))"
proof -
  have "SerializeJSONProperty gap (ind @ gap) v \<in> set (map (SerializeJSONProperty gap (ind @ gap)) vs)"
    using assms(1) by simp
  then have "c \<in> set (wrap_json gap ind [91] [93] (map (SerializeJSONProperty gap (ind @ gap)) vs))"
    using assms(2) by (rule wrap_json_keeps)
  moreover have "vs \<noteq> []" using assms(1) by auto
  ultimately show ?thesis by simp
qed

lemma stringify_keeps_name:
  assumes "a \<in> set xs" "c \<in> set (client_name a)" "255 < c"
    "\<not> is_leading_surrogate c" "\<not> is_trailing_surrogate c"
  shows "c \<in> set (JSON_stringify space (json_of_appointments xs))"
proof -
  have q: "c \<in> set (QuoteJSONString (client_name a))"
    using assms quote_units_keeps[of c "client_name a"] by (simp add: QuoteJSONString_def)
  have "c \<in> set (SerializeJSONProperty gap ind (json_of_appointment a))" for gap ind
    unfolding json_of_appointment_def
    by (rule ser_object_keeps[where k = "js ''client_name''" and v = "client_name a"])
      (simp_all add: q)
  moreover have "json_of_appointment a \<in> set (map json_of_appointment xs)"
    using assms(1) by simp
  ultimately have "c \<in> set (SerializeJSONProperty gap ind (JArray (map json_of_appointment xs)))"
    for gap ind
    by (rule ser_array_keeps[rotated])
  then show ?thesis by (simp add: JSON_stringify_def json_of_appointments_def)
qed

lemma non_latin1_name_is_rejected:
  assumes "a \<in> set xs" "c \<in> set (client_name a)" "255 < c"
    "\<not> is_leading_surrogate c" "\<not> is_trailing_surrogate c"
  shows "btoa (JSON_stringify 2 (json_of_appointments xs)) = Inl InvalidCharacterError"
  using stringify_keeps_name[OF assms, of 2] assms(3)
  by (auto simp: btoa_def list_ex_iff)

section \<open>Claims about the remote store\<close>

lemma btoa_rejects: "btoa s = Inl InvalidCharacterError \<longleftrightarrow> list_ex (\<lambda>c. 255 < c) s"
  by (simp add: btoa_def)

text \<open>
  Claim C1 (remote round trip, unicode included). \<^verbatim>\<open>saveData\<close> encodes with
  \<^verbatim>\<open>btoa(JSON.stringify(data, null, 2))\<close>, and \<^verbatim>\<open>btoa\<close> throws on every code unit
  above \<^verbatim>\<open>0xFF\<close>. \<^verbatim>\<open>JSON.stringify\<close> writes such a character as it is, so a record set
  whose \<^verbatim>\<open>client_name\<close> holds non-Latin-1 text is never encoded: \<^verbatim>\<open>saveData\<close> rejects
  with \<^verbatim>\<open>InvalidCharacterError\<close> after its \<^verbatim>\<open>GET\<close>, no \<^verbatim>\<open>PUT\<close> is issued and the
  remote file is not written, so there is nothing to decode
  (\<open>non_latin1_name_is_rejected\<close> is the general fact). The record set \<open>[zhang]\<close>,
  whose client name is two CJK characters, is such a set. (\<^verbatim>\<open>persistData\<close> logs the
  error; the local copy, written without \<^verbatim>\<open>btoa\<close>, is in place.)
\<close>

theorem unicode_name_is_not_encoded:
  "btoa (JSON_stringify 2 (json_of_appointments [zhang])) = Inl InvalidCharacterError
   \<and> saveData (github_api content_version) (new_GitHubStorage remote_settings)
       (json_of_appointments [zhang])
       (world_with \<lparr>remote_file = None, concurrent = []\<rparr> Map.empty)
     = (Inl InvalidCharacterError,
        \<lparr>net = \<lparr>remote_file = None, concurrent = []\<rparr>, localStorage = Map.empty,
         events = [Fetch (get_request (new_GitHubStorage remote_settings))]\<rparr>)
   \<and> net (snd (persistData (github_api content_version) [zhang]
               (app_with remote_settings [])
               (world_with \<lparr>remote_file = None, concurrent = []\<rparr> Map.empty)))
     = \<lparr>remote_file = None, concurrent = []\<rparr>
   \<and> events (snd (persistData (github_api content_version) [zhang]
               (app_with remote_settings [])
               (world_with \<lparr>remote_file = None, concurrent = []\<rparr> Map.empty)))
     = [LocalSet (js ''remindly_appointments'') (JSON_stringify 0 (json_of_appointments [zhang])),
        Fetch (get_request (new_GitHubStorage remote_settings)),
        ConsoleError (js ''Error persisting data:'') InvalidCharacterError]"
proof -
  let ?w = "world_with \<lparr>remote_file = None, concurrent = []\<rparr> Map.empty"
  let ?cfg = "new_GitHubStorage remote_settings"
  have b: "btoa (JSON_stringify 2 (json_of_appointments [zhang])) = Inl InvalidCharacterError"
    by code_simp
  have g: "getFile (github_api content_version) ?cfg w =
             (Inr None, w\<lparr>events := events w @ [Fetch (get_request ?cfg)]\<rparr>)"
    if "net w = \<lparr>remote_file = None, concurrent = []\<rparr>" for w :: "github world"
    using that
    by (simp add: getFile_def do_fetch_def github_api_def serve_def get_request_def
        json_response_def)
  have s: "saveData (github_api content_version) ?cfg (json_of_appointments [zhang]) w =
             (Inl InvalidCharacterError, w\<lparr>events := events w @ [Fetch (get_request ?cfg)]\<rparr>)"
    if "net w = \<lparr>remote_file = None, concurrent = []\<rparr>" for w :: "github world"
    using g[OF that] b by (simp add: saveData_def)
  have e: "remote_enabled remote_settings"
    by (simp add: remote_enabled_def remote_settings_def DEFAULT_SETTINGS_def js_def)
  show ?thesis
    using b s[of ?w]
      s[of "LocalStorageService_save (js ''remindly_appointments'')
              (json_of_appointments [zhang]) ?w"] e
    by (simp add: world_with_def persistData_def app_with_def Let_def
        LocalStorageService_save_def setItem_def console_error_def)
qed

text \<open>
  What does hold: for a record set whose serialisation has no code unit above
  \<^verbatim>\<open>0xFF\<close>, a save followed by a load against the remote API returns what
  \<^verbatim>\<open>JSON.parse\<close> makes of the serialised text, whether the file existed before or not
  (nobody else writing in between).
\<close>

lemma remote_round_trip_latin1:
  assumes remote: "net w = \<lparr>remote_file = None, concurrent = []\<rparr> \<or>
       (\<exists>c0 v0. v0 \<noteq> [] \<and> net w = \<lparr>remote_file = Some (c0, v0), concurrent = []\<rparr>)"
    and latin1: "\<not> list_ex (\<lambda>c. 255 < c) (JSON_stringify 2 data)"
    and parse: "JSON_parse (JSON_stringify 2 data) = Inr v"
  shows "fst (saveData (github_api version_of) config data w) = Inr () \<and>
         fst (loadData (github_api version_of) JSON_parse config d
                (snd (saveData (github_api version_of) config data w))) = Inr v"
proof -
  from atob_btoa[OF latin1] obtain t where
    t: "btoa (JSON_stringify 2 data) = Inr t" "atob t = Inr (JSON_stringify 2 data)"
    by blast
  have s: "saveData (github_api version_of) config data w =
      (Inr (), w\<lparr>net := \<lparr>remote_file = Some (t, version_of t), concurrent = []\<rparr>,
                 events := events w @ [Fetch (get_request config),
                   Fetch (put_request config t
                     (case remote_file (net w) of None \<Rightarrow> None | Some (c, v) \<Rightarrow> Some v))]\<rparr>)"
    using remote t(1)
    by (auto simp: saveData_def getFile_def do_fetch_def github_api_def serve_def
        json_response_def ok_def get_request_def put_request_def)
  have l: "fst (loadData (github_api version_of) JSON_parse config d w') = Inr v"
    if "net w' = \<lparr>remote_file = Some (t, version_of t), concurrent = []\<rparr>" for w' :: "github world"
    using that t(2) parse
    by (simp add: loadData_def getFile_def do_fetch_def github_api_def serve_def
        json_response_def ok_def get_request_def)
  show ?thesis unfolding s by (simp add: l)
qed

text \<open>\<^verbatim>\<open>loadData\<close> never rejects, and a failed \<^verbatim>\<open>getFile\<close> makes
  \<^verbatim>\<open>loadInitialData\<close> set the empty list, whatever the local store holds.\<close>

lemma loadData_never_rejects:
  "\<exists>v. fst (loadData fetch JSON_parse config d w) = Inr v"
  by (auto simp: loadData_def split: prod.splits sum.splits option.splits)

lemma loadInitialData_remote_failure:
  assumes "remote_enabled s"
    and "fst (getFile fetch (new_GitHubStorage s) w) = Inl e"
  shows "appointments (fst (loadInitialData fetch JSON_parse s st w)) = []"
  using assms
  by (auto simp: loadInitialData_def loadData_def split: prod.splits sum.splits option.splits)

text \<open>
  Claim C2 (a failed remote read falls back to the local value). \<^verbatim>\<open>loadData\<close> catches
  every failure itself and resolves to the default it was given, which
  \<^verbatim>\<open>loadInitialData\<close> passes as the empty list; so the \<^verbatim>\<open>catch\<close> of
  \<^verbatim>\<open>loadInitialData\<close>, which holds the fallback to \<^verbatim>\<open>LocalStorageService.load\<close>, is
  never entered. With the remote store enabled and \<open>[ana]\<close> in the local store, the read
  yields the empty list when the network is down, when the API answers 500 and when the
  content is not base64, while the local store's value is \<open>[ana]\<close>. The read does not
  raise.
\<close>

theorem failed_remote_read_yields_empty_default:
  "LocalStorageService_load (JSON_parse_among [[], [ana]]) (js ''remindly_appointments'') []
      (world_with () [js ''remindly_appointments'' \<mapsto>
                        JSON_stringify 0 (json_of_appointments [ana])]) = [ana]
   \<and> appointments (fst (loadInitialData offline (JSON_parse_among [[], [ana]])
        remote_settings (app_with remote_settings [])
        (world_with () [js ''remindly_appointments'' \<mapsto>
                          JSON_stringify 0 (json_of_appointments [ana])]))) = []
   \<and> appointments (fst (loadInitialData (answering 500) (JSON_parse_among [[], [ana]])
        remote_settings (app_with remote_settings [])
        (world_with () [js ''remindly_appointments'' \<mapsto>
                          JSON_stringify 0 (json_of_appointments [ana])]))) = []
   \<and> appointments (fst (loadInitialData
        (serving [(''content'', js ''not base64!''), (''sha'', js ''3f2a'')])
        (JSON_parse_among [[], [ana]])
        remote_settings (app_with remote_settings [])
        (world_with () [js ''remindly_appointments'' \<mapsto>
                          JSON_stringify 0 (json_of_appointments [ana])]))) = []"
proof -
  let ?w = "world_with () [js ''remindly_appointments'' \<mapsto>
                             JSON_stringify 0 (json_of_appointments [ana])]"
  have a: "LocalStorageService_load (JSON_parse_among [[], [ana]])
             (js ''remindly_appointments'') [] ?w = [ana]"
    by code_simp
  have b: "appointments (fst (loadInitialData offline (JSON_parse_among [[], [ana]])
             remote_settings (app_with remote_settings []) ?w)) = []"
    by code_simp
  have c: "appointments (fst (loadInitialData (answering 500) (JSON_parse_among [[], [ana]])
             remote_settings (app_with remote_settings []) ?w)) = []"
    by code_simp
  have d: "appointments (fst (loadInitialData
             (serving [(''content'', js ''not base64!''), (''sha'', js ''3f2a'')])
             (JSON_parse_among [[], [ana]])
             remote_settings (app_with remote_settings []) ?w)) = []"
    by code_simp
  from a b c d show ?thesis by blast
qed

lemma saveData_rejected_put:
  assumes g: "fetch (get_request config) (net w) = (Inr res, n1)"
    and "ok res" and "json_body res = Inr existing" and "map_of existing ''sha'' = Some v" and "v \<noteq> []"
    and b: "btoa (JSON_stringify 2 data) = Inr encoded"
    and p: "fetch (put_request config encoded (Some v)) n1 = (Inr res2, n2)"
    and "\<not> ok res2"
  shows "(\<exists>e. fst (saveData fetch config data w) = Inl e) \<and>
         net (snd (saveData fetch config data w)) = n2 \<and>
         events (snd (saveData fetch config data w)) =
           events w @ [Fetch (get_request config), Fetch (put_request config encoded (Some v))]"
proof -
  have n404: "status_code res \<noteq> 404" using \<open>ok res\<close> by (auto simp: ok_def)
  have gf: "getFile fetch config w =
              (Inr (Some existing), w\<lparr>net := n1, events := events w @ [Fetch (get_request config)]\<rparr>)"
    using g n404 assms(2,3) by (simp add: getFile_def do_fetch_def)
  show ?thesis
    using assms(4-) by (auto simp: saveData_def gf do_fetch_def Let_def split: sum.splits)
qed

lemma saveData_github:
  assumes "btoa (JSON_stringify 2 data) = Inr encoded" and "v0 \<noteq> []"
  shows "net g = \<lparr>remote_file = Some (c0, v0), concurrent = [Some (c1, v1)]\<rparr> \<Longrightarrow> v1 \<noteq> v0 \<Longrightarrow>
      saveData (github_api version_of) config data g =
        (Inl (Error (js ''GitHub Save Error: ''
                     @ js ''the file does not match the given sha'')),
         g\<lparr>net := \<lparr>remote_file = Some (c1, v1), concurrent = []\<rparr>,
           events := events g @ [Fetch (get_request config),
                                 Fetch (put_request config encoded (Some v0))]\<rparr>)"
    and "net g = \<lparr>remote_file = Some (c0, v0), concurrent = []\<rparr> \<Longrightarrow>
      saveData (github_api version_of) config data g =
        (Inr (),
         g\<lparr>net := \<lparr>remote_file = Some (encoded, version_of encoded), concurrent = []\<rparr>,
           events := events g @ [Fetch (get_request config),
                                 Fetch (put_request config encoded (Some v0))]\<rparr>)"
  using assms
  by (simp_all add: saveData_def getFile_def do_fetch_def github_api_def serve_def
      json_response_def ok_def get_request_def put_request_def js_def)

text \<open>
  Claim C6 (optimistic concurrency). \<^verbatim>\<open>saveData\<close> reads the file immediately before
  it writes and passes the version that this read returned as the \<^verbatim>\<open>sha\<close> of its
  \<^verbatim>\<open>PUT\<close>.
  \<^item> For every \<^verbatim>\<open>fetch\<close>: when the read returns a file with a (non-empty) version \<open>v\<close>
    and the \<^verbatim>\<open>PUT\<close> is answered with a status outside 2xx, \<^verbatim>\<open>saveData\<close> fails, and
    its requests are the one \<^verbatim>\<open>GET\<close> and the one \<^verbatim>\<open>PUT\<close> carrying \<open>v\<close>: no retry.
  \<^item> Against the remote API: when another client replaces the file \<open>(c0, v0)\<close> by
    \<open>(c1, v1)\<close> between the read and the write, the version \<open>v0\<close> is stale, the API
    rejects the write and \<^verbatim>\<open>saveData\<close> fails with the error carrying the API's message;
    the remote file is then what the other client wrote.
  \<^item> When nobody interferes, the same request, carrying \<open>v0\<close>, is accepted and the content
    is replaced.
  The code has one error class; the conflict is the rejection of the \<^verbatim>\<open>PUT\<close>, told from
  other failures by its message.
\<close>

theorem stale_version_is_rejected:
  "(fetch (get_request config) (net w) = (Inr res, n1) \<and> ok res \<and> json_body res = Inr existing \<and>
    map_of existing ''sha'' = Some v \<and> v \<noteq> [] \<and> btoa (JSON_stringify 2 data) = Inr encoded \<and>
    fetch (put_request config encoded (Some v)) n1 = (Inr res2, n2) \<and> \<not> ok res2 \<longrightarrow>
      (\<exists>e. fst (saveData fetch config data w) = Inl e) \<and>
      net (snd (saveData fetch config data w)) = n2 \<and>
      events (snd (saveData fetch config data w)) =
        events w @ [Fetch (get_request config), Fetch (put_request config encoded (Some v))])
   \<and>
   (net g = \<lparr>remote_file = Some (c0, v0), concurrent = [Some (c1, v1)]\<rparr> \<and>
    v0 \<noteq> [] \<and> v1 \<noteq> v0 \<and> btoa (JSON_stringify 2 data) = Inr encoded \<longrightarrow>
      saveData (github_api version_of) config data g =
        (Inl (Error (js ''GitHub Save Error: ''
                     @ js ''the file does not match the given sha'')),
         g\<lparr>net := \<lparr>remote_file = Some (c1, v1), concurrent = []\<rparr>,
           events := events g @ [Fetch (get_request config),
                                 Fetch (put_request config encoded (Some v0))]\<rparr>))
   \<and>
   (net g = \<lparr>remote_file = Some (c0, v0), concurrent = []\<rparr> \<and>
    v0 \<noteq> [] \<and> btoa (JSON_stringify 2 data) = Inr encoded \<longrightarrow>
      saveData (github_api version_of) config data g =
        (Inr (),
         g\<lparr>net := \<lparr>remote_file = Some (encoded, version_of encoded), concurrent = []\<rparr>,
           events := events g @ [Fetch (get_request config),
                                 Fetch (put_request config encoded (Some v0))]\<rparr>))"
proof (intro conjI impI)
  assume "fetch (get_request config) (net w) = (Inr res, n1) \<and> ok res \<and>
    json_body res = Inr existing \<and> map_of existing ''sha'' = Some v \<and> v \<noteq> [] \<and>
    btoa (JSON_stringify 2 data) = Inr encoded \<and>
    fetch (put_request config encoded (Some v)) n1 = (Inr res2, n2) \<and> \<not> ok res2"
  then have r: "(\<exists>e. fst (saveData fetch config data w) = Inl e) \<and>
      net (snd (saveData fetch config data w)) = n2 \<and>
      events (snd (saveData fetch config data w)) =
        events w @ [Fetch (get_request config), Fetch (put_request config encoded (Some v))]"
    by (intro saveData_rejected_put[where res = res and existing = existing and ?n1.0 = n1
          and ?res2.0 = res2]) simp_all
  from r show "\<exists>e. fst (saveData fetch config data w) = Inl e" by blast
  from r show "net (snd (saveData fetch config data w)) = n2" by blast
  from r show "events (snd (saveData fetch config data w)) =
        events w @ [Fetch (get_request config), Fetch (put_request config encoded (Some v))]"
    by blast
next
  assume "net g = \<lparr>remote_file = Some (c0, v0), concurrent = [Some (c1, v1)]\<rparr> \<and>
    v0 \<noteq> [] \<and> v1 \<noteq> v0 \<and> btoa (JSON_stringify 2 data) = Inr encoded"
  then show "saveData (github_api version_of) config data g =
        (Inl (Error (js ''GitHub Save Error: ''
                     @ js ''the file does not match the given sha'')),
         g\<lparr>net := \<lparr>remote_file = Some (c1, v1), concurrent = []\<rparr>,
           events := events g @ [Fetch (get_request config),
                                 Fetch (put_request config encoded (Some v0))]\<rparr>)"
    by (intro saveData_github(1)) simp_all
next
  assume "net g = \<lparr>remote_file = Some (c0, v0), concurrent = []\<rparr> \<and>
    v0 \<noteq> [] \<and> btoa (JSON_stringify 2 data) = Inr encoded"
  then show "saveData (github_api version_of) config data g =
        (Inr (),
         g\<lparr>net := \<lparr>remote_file = Some (encoded, version_of encoded), concurrent = []\<rparr>,
           events := events g @ [Fetch (get_request config),
                                 Fetch (put_request config encoded (Some v0))]\<rparr>)"
    by (intro saveData_github(2)) simp_all
qed

text \<open>The set \<open>[ana]\<close> is written while another client replaces the remote file.\<close>

theorem stale_version_is_rejected_witness:
  "saveData (github_api content_version) (new_GitHubStorage remote_settings)
       (json_of_appointments [ana])
       (world_with \<lparr>remote_file = Some (js ''W10='', js ''blob-W10=''),
                    concurrent = [Some (js ''WyJ4Il0='', js ''blob-WyJ4Il0='')]\<rparr> Map.empty)
     = (Inl (Error (js ''GitHub Save Error: '' @ js ''the file does not match the given sha'')),
        (world_with \<lparr>remote_file = Some (js ''W10='', js ''blob-W10=''),
                     concurrent = [Some (js ''WyJ4Il0='', js ''blob-WyJ4Il0='')]\<rparr> Map.empty)
          \<lparr>net := \<lparr>remote_file = Some (js ''WyJ4Il0='', js ''blob-WyJ4Il0=''), concurrent = []\<rparr>,
           events := events (world_with \<lparr>remote_file = Some (js ''W10='', js ''blob-W10=''),
                     concurrent = [Some (js ''WyJ4Il0='', js ''blob-WyJ4Il0='')]\<rparr> Map.empty) @
             [Fetch (get_request (new_GitHubStorage remote_settings)),
              Fetch (put_request (new_GitHubStorage remote_settings)
                       (map of_nat (b64_encode (map unat
                          (JSON_stringify 2 (json_of_appointments [ana])))))
                       (Some (js ''blob-W10='')))]\<rparr>)
   \<and> fst (saveData (github_api content_version) (new_GitHubStorage remote_settings)
       (json_of_appointments [ana])
       (world_with \<lparr>remote_file = Some (js ''W10='', js ''blob-W10=''), concurrent = []\<rparr>
          Map.empty)) = Inr ()"
proof -
  let ?f0 = "(js ''W10='', js ''blob-W10='')"
  let ?f1 = "(js ''WyJ4Il0='', js ''blob-WyJ4Il0='')"
  let ?g = "world_with \<lparr>remote_file = Some ?f0, concurrent = [Some ?f1]\<rparr> Map.empty"
  let ?g' = "world_with \<lparr>remote_file = Some ?f0, concurrent = []\<rparr> Map.empty"
  let ?cfg = "new_GitHubStorage remote_settings"
  let ?enc = "map of_nat (b64_encode (map unat (JSON_stringify 2 (json_of_appointments [ana]))))"
  let ?file = "[(''content'', js ''W10=''), (''sha'', js ''blob-W10='')]"
  let ?res = "json_response 200 ''OK'' ?file"
  let ?n1 = "\<lparr>remote_file = Some ?f1, concurrent = []\<rparr>"
  let ?res2 = "json_response 409 ''Conflict''
                 [(''message'', js ''the file does not match the given sha'')]"
  have n: "net ?g = \<lparr>remote_file = Some ?f0, concurrent = [Some ?f1]\<rparr>"
    and n': "net ?g' = \<lparr>remote_file = Some ?f0, concurrent = []\<rparr>"
    by (simp_all add: world_with_def)
  have v0: "js ''blob-W10='' \<noteq> []" by (simp add: js_def)
  have v1: "js ''blob-WyJ4Il0='' \<noteq> js ''blob-W10=''" by (simp add: js_def)
  have l: "\<not> list_ex (\<lambda>c. 255 < c) (JSON_stringify 2 (json_of_appointments [ana]))"
    by code_simp
  have b: "btoa (JSON_stringify 2 (json_of_appointments [ana])) = Inr ?enc"
    using l by (simp add: btoa_def)
  have h1: "github_api content_version (get_request ?cfg) (net ?g) = (Inr ?res, ?n1)"
    by (simp add: n github_api_def serve_def get_request_def)
  have h2: "ok ?res" "json_body ?res = Inr ?file" "map_of ?file ''sha'' = Some (js ''blob-W10='')"
    by (simp_all add: ok_def json_response_def)
  have h3: "github_api content_version (put_request ?cfg ?enc (Some (js ''blob-W10=''))) ?n1
              = (Inr ?res2, ?n1)"
    using v0 v1 by (simp add: github_api_def serve_def put_request_def)
  have h4: "\<not> ok ?res2" by (simp add: ok_def json_response_def)
  from stale_version_is_rejected[of "github_api content_version" ?cfg ?g ?res ?n1 ?file
      "js ''blob-W10=''" "json_of_appointments [ana]" ?enc ?res2 ?n1
      ?g "js ''W10=''" "js ''blob-W10=''" "js ''WyJ4Il0=''" "js ''blob-WyJ4Il0=''"
      content_version]
    n v0 v1 b h1 h2 h3 h4
  have stale: "saveData (github_api content_version) ?cfg (json_of_appointments [ana]) ?g
     = (Inl (Error (js ''GitHub Save Error: '' @ js ''the file does not match the given sha'')),
        ?g\<lparr>net := \<lparr>remote_file = Some ?f1, concurrent = []\<rparr>,
           events := events ?g @
             [Fetch (get_request ?cfg),
              Fetch (put_request ?cfg ?enc (Some (js ''blob-W10='')))]\<rparr>)"
    by blast
  from saveData_github(2)[OF b v0, of ?g' "js ''W10=''" content_version ?cfg] n'
  have "fst (saveData (github_api content_version) ?cfg (json_of_appointments [ana]) ?g')
          = Inr ()"
    by simp
  with stale show ?thesis by simp
qed

section \<open>Claims about persistence\<close>

text \<open>
  Claim C3. Every write of a record set is persisted to the local store before any remote
  attempt, and no outcome of the remote write undoes or prevents it. For every
  \<^verbatim>\<open>fetch\<close> (every behaviour of the network), every state and every record set
  \<open>xs\<close>: the first effect of \<^verbatim>\<open>persistData\<close> is the \<^verbatim>\<open>localStorage.setItem\<close> of
  the serialised set under \<^verbatim>\<open>remindly_appointments\<close>, nothing after it writes to
  \<^verbatim>\<open>localStorage\<close>, and when it has returned \<^verbatim>\<open>LocalStorageService.load\<close> yields
  \<open>xs\<close>. The hypothesis is that \<^verbatim>\<open>JSON.parse\<close> reads back what \<^verbatim>\<open>JSON.stringify\<close>
  wrote for \<open>xs\<close>.
\<close>

theorem persistData_local_first:
  assumes "JSON_parse (JSON_stringify 0 (json_of_appointments xs)) = Inr xs"
  shows "\<exists>rest. events (snd (persistData fetch xs st w)) =
            events w @ LocalSet (js ''remindly_appointments'')
                         (JSON_stringify 0 (json_of_appointments xs)) # rest
          \<and> list_all (\<lambda>e. \<not> is_LocalSet e) rest
          \<and> LocalStorageService_load JSON_parse (js ''remindly_appointments'') []
               (snd (persistData fetch xs st w)) = xs"
proof -
  from persistData_world[of fetch xs st w] obtain rest where
    a: "events (snd (persistData fetch xs st w)) =
       events w @ LocalSet (js ''remindly_appointments'')
                    (JSON_stringify 0 (json_of_appointments xs)) # rest"
    and b: "list_all (\<lambda>e. \<not> is_LocalSet e \<and> \<not> is_Alert e) rest"
    and c: "localStorage (snd (persistData fetch xs st w)) =
         (localStorage w)(js ''remindly_appointments'' \<mapsto>
            JSON_stringify 0 (json_of_appointments xs))"
    by blast
  have "LocalStorageService_load JSON_parse (js ''remindly_appointments'') []
               (snd (persistData fetch xs st w)) = xs"
    using c assms stringify_array_nonempty[of 0 "map json_of_appointment xs"]
    by (simp add: LocalStorageService_load_def json_of_appointments_def)
  moreover have "list_all (\<lambda>e. \<not> is_LocalSet e) rest"
    using b by (induction rest) auto
  ultimately show ?thesis using a by blast
qed

text \<open>The write of \<open>[ana]\<close> with the remote store enabled and the network down.\<close>

theorem persistData_local_first_witness:
  "JSON_parse_among [[], [ana]] (JSON_stringify 0 (json_of_appointments [ana])) = Inr [ana]
   \<and> LocalStorageService_load (JSON_parse_among [[], [ana]]) (js ''remindly_appointments'') []
        (snd (persistData offline [ana] (app_with remote_settings []) (world_with () Map.empty)))
      = [ana]"
proof -
  have h: "JSON_parse_among [[], [ana]] (JSON_stringify 0 (json_of_appointments [ana]))
             = Inr [ana]"
    by code_simp
  from persistData_local_first[of "JSON_parse_among [[], [ana]]" "[ana]" offline
      "app_with remote_settings []" "world_with () Map.empty"] h
  show ?thesis by blast
qed

section \<open>Claims about the record set\<close>

lemma filter_other_ids: "i \<notin> id' ` set xs \<Longrightarrow> filter (\<lambda>a. id' a \<noteq> i) xs = xs"
  by (induction xs) auto

lemma find_unknown_id: "i \<notin> id' ` set xs \<Longrightarrow> find (\<lambda>a. id' a = i) xs = None"
  by (induction xs) auto

lemma next_rowid_fresh: "next_rowid d \<notin> id' ` set (appointments_table d)"
proof
  assume "next_rowid d \<in> id' ` set (appointments_table d)"
  then have "next_rowid d \<le> Max (insert (sqlite_sequence d) (id' ` set (appointments_table d)))"
    by (intro Max_ge) auto
  then show False by (simp add: next_rowid_def)
qed

text \<open>
  Claim C4, as the code has it. For an id that no record has:
  \<^item> remove does not fail. \<^verbatim>\<open>handleDelete\<close> filters the list, which leaves it as it
    was, and persists it again: the state is unchanged, the first effect is the local
    write of the unchanged set, and no alert is raised. \<^verbatim>\<open>DELETE /api/appointments/:id\<close>
    answers 200 \<^verbatim>\<open>{ success: true }\<close> and the database is unchanged.
  \<^item> the trigger, the only path to the status update, fails and changes nothing: the
    server answers 404 \<^verbatim>\<open>Appointment not found\<close> without calling the webhook; the
    browser raises the alert \<^verbatim>\<open>Missing appointment data or n8n Webhook URL\<close> and issues
    no request.
\<close>

theorem unknown_id_outcomes:
  "(i \<notin> id' ` set (appointments st) \<longrightarrow>
      fst (handleDelete fetch i st w) = st \<and>
      (\<exists>rest. events (snd (handleDelete fetch i st w)) =
                events w @ LocalSet (js ''remindly_appointments'')
                             (JSON_stringify 0 (json_of_appointments (appointments st))) # rest
              \<and> list_all (\<lambda>e. \<not> is_Alert e) rest) \<and>
      handleTrigger fetch i st w =
        (st, w\<lparr>events := events w @
                  [Alert (js ''Missing appointment data or n8n Webhook URL'')]\<rparr>))
   \<and>
   (j \<notin> id' ` set (appointments_table (database s)) \<longrightarrow>
      delete_appointment j (database s) = (\<lparr>code = 200, content = Success\<rparr>, database s) \<and>
      trigger_reminder post j s =
        (\<lparr>code = 404, content = ErrorMessage ''Appointment not found''\<rparr>, s))"
proof (intro conjI impI)
  assume a: "i \<notin> id' ` set (appointments st)"
  show "fst (handleDelete fetch i st w) = st"
    using a by (simp add: handleDelete_def persistData_appointments filter_other_ids)
  from persistData_world[of fetch "appointments st" st w] obtain rest where
    e: "events (snd (persistData fetch (appointments st) st w)) =
          events w @ LocalSet (js ''remindly_appointments'')
                       (JSON_stringify 0 (json_of_appointments (appointments st))) # rest"
    and b: "list_all (\<lambda>e. \<not> is_LocalSet e \<and> \<not> is_Alert e) rest"
    by blast
  have "list_all (\<lambda>e. \<not> is_Alert e) rest"
    using b by (induction rest) auto
  with e show "\<exists>rest. events (snd (handleDelete fetch i st w)) =
                events w @ LocalSet (js ''remindly_appointments'')
                             (JSON_stringify 0 (json_of_appointments (appointments st))) # rest
              \<and> list_all (\<lambda>e. \<not> is_Alert e) rest"
    using a by (auto simp: handleDelete_def filter_other_ids)
  show "handleTrigger fetch i st w =
        (st, w\<lparr>events := events w @
                  [Alert (js ''Missing appointment data or n8n Webhook URL'')]\<rparr>)"
    using a by (simp add: handleTrigger_def find_unknown_id alert_def)
next
  assume a: "j \<notin> id' ` set (appointments_table (database s))"
  show "delete_appointment j (database s) = (\<lparr>code = 200, content = Success\<rparr>, database s)"
    using a by (simp add: delete_appointment_def filter_other_ids)
  show "trigger_reminder post j s =
        (\<lparr>code = 404, content = ErrorMessage ''Appointment not found''\<rparr>, s)"
    using a by (simp add: trigger_reminder_def find_unknown_id)
qed

text \<open>Id 7 is in neither record set.\<close>

theorem unknown_id_outcomes_witness:
  "fst (handleDelete offline 7 (app_with remote_settings [ana, zhang]) (world_with () Map.empty))
     = app_with remote_settings [ana, zhang]
   \<and> handleTrigger offline 7 (app_with remote_settings [ana, zhang]) (world_with () Map.empty)
     = (app_with remote_settings [ana, zhang],
        (world_with () Map.empty)
          \<lparr>events := events (world_with () Map.empty) @
             [Alert (js ''Missing appointment data or n8n Webhook URL'')]\<rparr>)
   \<and> delete_appointment 7 (database (server_with scenario_db))
     = (\<lparr>code = 200, content = Success\<rparr>, database (server_with scenario_db))
   \<and> trigger_reminder (webhook_answering 200) 7 (server_with scenario_db)
     = (\<lparr>code = 404, content = ErrorMessage ''Appointment not found''\<rparr>,
        server_with scenario_db)"
proof -
  have c: "7 \<notin> id' ` set (appointments (app_with remote_settings [ana, zhang]))"
    by (simp add: app_with_def ana_def zhang_def)
  have s: "7 \<notin> id' ` set (appointments_table (database (server_with scenario_db)))"
    by (simp add: server_with_def scenario_db_def scenario_row_def)
  from unknown_id_outcomes[of 7 "app_with remote_settings [ana, zhang]" offline
      "world_with () Map.empty" 7 "server_with scenario_db" "webhook_answering 200"] c s
  show ?thesis by blast
qed

text \<open>The claim as stated fails: removing an id that no record has is answered with
  success, by the server and by the browser (whose only effect is the local write of the
  unchanged list: no alert, no error).\<close>

theorem remove_unknown_id_succeeds:
  "7 \<notin> id' ` set (appointments_table scenario_db)
   \<and> fst (delete_appointment 7 scenario_db) = \<lparr>code = 200, content = Success\<rparr>
   \<and> 7 \<notin> id' ` set [ana]
   \<and> events (snd (handleDelete offline 7 (app_with DEFAULT_SETTINGS [ana])
                     (world_with () Map.empty)))
     = [LocalSet (js ''remindly_appointments'') (JSON_stringify 0 (json_of_appointments [ana]))]"
  by (simp add: scenario_db_def scenario_row_def delete_appointment_def ana_def
      handleDelete_def persistData_def remote_enabled_def app_with_def DEFAULT_SETTINGS_def
      LocalStorageService_save_def setItem_def world_with_def)

text \<open>
  Claim C5, as the code has it. Neither handler checks that \<^verbatim>\<open>client_name\<close> and
  \<^verbatim>\<open>phone_number\<close> are non-empty (the form's \<^verbatim>\<open>required\<close> attributes and the table's
  \<^verbatim>\<open>NOT NULL\<close> are the only presence checks, and an empty text passes the second).
  Every call of \<^verbatim>\<open>handleAddAppointment\<close> appends exactly one record, made of the form
  fields, with status \<^verbatim>\<open>pending\<close> and the clock reading \<^verbatim>\<open>Date.now()\<close> as id; the
  ids of the list stay distinct exactly when they were distinct and no record already had
  that clock reading. Every \<^verbatim>\<open>POST /api/appointments\<close> whose four fields are present
  appends exactly one row with status \<^verbatim>\<open>pending\<close> and an id that no row has, and
  answers with that id.
\<close>

theorem create_appends_one_pending:
  "appointments (fst (handleAddAppointment fetch now st w)) =
     appointments st @
       [\<lparr>client_name = client_name (newAppt st), phone_number = phone_number (newAppt st),
         appointment_date = appointment_date (newAppt st),
         appointment_time = appointment_time (newAppt st), id' = now, status = Pending\<rparr>]
   \<and> length (appointments (fst (handleAddAppointment fetch now st w))) =
       Suc (length (appointments st))
   \<and> distinct (map id' (appointments (fst (handleAddAppointment fetch now st w)))) =
       (distinct (map id' (appointments st)) \<and> now \<notin> id' ` set (appointments st))
   \<and> (client_name req = Some n \<and> phone_number req = Some p \<and>
       appointment_date req = Some da \<and> appointment_time req = Some ti \<longrightarrow>
         post_appointments t req d =
           (\<lparr>code = 200, content = InsertedId (next_rowid d)\<rparr>,
            d\<lparr>appointments_table := appointments_table d @
                 [\<lparr>client_name = n, phone_number = p, appointment_date = da,
                   appointment_time = ti, id' = next_rowid d, status = Pending,
                   created_at = t\<rparr>],
              sqlite_sequence := next_rowid d\<rparr>)
         \<and> length (appointments_table (snd (post_appointments t req d))) =
             Suc (length (appointments_table d))
         \<and> next_rowid d \<notin> id' ` set (appointments_table d))"
proof -
  have a: "appointments (fst (handleAddAppointment fetch now st w)) =
     appointments st @
       [\<lparr>client_name = client_name (newAppt st), phone_number = phone_number (newAppt st),
         appointment_date = appointment_date (newAppt st),
         appointment_time = appointment_time (newAppt st), id' = now, status = Pending\<rparr>]"
    using persistData_appointments[of fetch _ st w]
    by (simp add: handleAddAppointment_def Let_def split: prod.splits)
      (metis app.select_convs(1) app.update_convs(1) app.surjective fst_conv)
  have b: "client_name req = Some n \<and> phone_number req = Some p \<and>
       appointment_date req = Some da \<and> appointment_time req = Some ti \<Longrightarrow>
         post_appointments t req d =
           (\<lparr>code = 200, content = InsertedId (next_rowid d)\<rparr>,
            d\<lparr>appointments_table := appointments_table d @
                 [\<lparr>client_name = n, phone_number = p, appointment_date = da,
                   appointment_time = ti, id' = next_rowid d, status = Pending,
                   created_at = t\<rparr>],
              sqlite_sequence := next_rowid d\<rparr>)"
    by (simp add: post_appointments_def)
  show ?thesis
    using b next_rowid_fresh[of d] by (auto simp: a)
qed

text \<open>A form with all fields filled in, and a request with all fields present.\<close>

theorem create_appends_one_pending_witness:
  "length (appointments_table (snd (post_appointments ''2025-02-21 08:00:00''
       \<lparr>client_name = Some ''Bo'', phone_number = Some ''+1666'',
        appointment_date = Some ''2025-03-03'', appointment_time = Some ''11:00''\<rparr>
       scenario_db))) = Suc (length (appointments_table scenario_db))
   \<and> next_rowid scenario_db \<notin> id' ` set (appointments_table scenario_db)
   \<and> length (appointments (fst (handleAddAppointment offline 1740992400000
         ((app_with remote_settings [ana])
            \<lparr>newAppt := \<lparr>client_name = js ''Bo'', phone_number = js ''+1666'',
                          appointment_date = js ''2025-03-03'',
                          appointment_time = js ''11:00''\<rparr>\<rparr>)
         (world_with () Map.empty)))) = Suc (length [ana])"
proof -
  let ?req = "\<lparr>client_name = Some ''Bo'', phone_number = Some ''+1666'',
        appointment_date = Some ''2025-03-03'', appointment_time = Some ''11:00''\<rparr>"
  let ?st = "(app_with remote_settings [ana])
            \<lparr>newAppt := \<lparr>client_name = js ''Bo'', phone_number = js ''+1666'',
                          appointment_date = js ''2025-03-03'',
                          appointment_time = js ''11:00''\<rparr>\<rparr>"
  have h: "client_name ?req = Some ''Bo'' \<and> phone_number ?req = Some ''+1666'' \<and>
       appointment_date ?req = Some ''2025-03-03'' \<and> appointment_time ?req = Some ''11:00''"
    by simp
  have l: "appointments ?st = [ana]" by (simp add: app_with_def)
  from create_appends_one_pending[of offline 1740992400000 ?st "world_with () Map.empty"
      ?req "''Bo''" "''+1666''" "''2025-03-03''" "''11:00''" "''2025-02-21 08:00:00''"
      scenario_db] h l
  show ?thesis by simp
qed

text \<open>The claim as stated fails: an empty form is accepted, and a clock reading that is
  already an id is used again; the server stores empty texts.\<close>

theorem create_accepts_empty_and_reuses_ids:
  "appointments (fst (handleAddAppointment offline (id' ana) (app_with DEFAULT_SETTINGS [ana])
                        (world_with () Map.empty)))
     = [ana, \<lparr>client_name = [], phone_number = [], appointment_date = [],
              appointment_time = [], id' = id' ana, status = Pending\<rparr>]
   \<and> map client_name (appointments_table (snd (post_appointments ''2025-02-21 08:00:00''
        \<lparr>client_name = Some [], phone_number = Some [], appointment_date = Some [],
         appointment_time = Some []\<rparr> scenario_db)))
     = [''Ana'', ''Ana'', []]"
  by (simp add: handleAddAppointment_def persistData_def remote_enabled_def app_with_def
      DEFAULT_SETTINGS_def Let_def post_appointments_def scenario_db_def scenario_row_def)

lemma sorted_pairs_explicit:
  "sorted (map (\<lambda>r. (f r, g r)) rs) \<Longrightarrow>
   sorted_wrt (\<lambda>a b. f a < f b \<or> (f a = f b \<and> g a \<le> g b)) rs"
  by (induction rs) (auto simp: less_eq_prod_def)

text \<open>
  Claim C8. Listing the appointments (\<^verbatim>\<open>GET /api/appointments\<close>) answers 200 with the
  rows of the table, each exactly once, in ascending order of the pair
  (\<^verbatim>\<open>appointment_date\<close>, \<^verbatim>\<open>appointment_time\<close>) under plain string comparison: of any
  two rows of the answer, the one that comes first has the smaller date, or the same date
  and a time that is not greater. Strings compare lexicographically, by byte. In the
  scenario of the spec, the rows dated 2025-03-02 and 2025-03-01, both at 09:00, come
  back with 2025-03-01 first.
\<close>

theorem listing_sorted_by_date_time:
  "(\<exists>rs. get_appointments d = \<lparr>code = 200, content = Rows rs\<rparr>
      \<and> sorted_wrt (\<lambda>a b. appointment_date a < appointment_date b
                          \<or> (appointment_date a = appointment_date b
                              \<and> appointment_time a \<le> appointment_time b)) rs
      \<and> mset rs = mset (appointments_table d))
   \<and> map appointment_date (appointments_table scenario_db) = [''2025-03-02'', ''2025-03-01'']
   \<and> map appointment_time (appointments_table scenario_db) = [''09:00'', ''09:00'']
   \<and> get_appointments scenario_db =
       \<lparr>code = 200,
        content = Rows [scenario_row 2 ''2025-03-01'', scenario_row 1 ''2025-03-02'']\<rparr>"
proof -
  have "sorted (map (\<lambda>r. (appointment_date r, appointment_time r))
          (sort_key (\<lambda>r. (appointment_date r, appointment_time r)) (appointments_table d)))"
    by (rule sorted_sort_key)
  then have "sorted_wrt (\<lambda>a b. appointment_date a < appointment_date b
                          \<or> (appointment_date a = appointment_date b
                              \<and> appointment_time a \<le> appointment_time b))
          (sort_key (\<lambda>r. (appointment_date r, appointment_time r)) (appointments_table d))"
    by (rule sorted_pairs_explicit)
  then have general: "\<exists>rs. get_appointments d = \<lparr>code = 200, content = Rows rs\<rparr>
      \<and> sorted_wrt (\<lambda>a b. appointment_date a < appointment_date b
                          \<or> (appointment_date a = appointment_date b
                              \<and> appointment_time a \<le> appointment_time b)) rs
      \<and> mset rs = mset (appointments_table d)"
    by (simp add: get_appointments_def)
  have scenario: "get_appointments scenario_db =
       \<lparr>code = 200,
        content = Rows [scenario_row 2 ''2025-03-01'', scenario_row 1 ''2025-03-02'']\<rparr>"
    by code_simp
  show ?thesis
    using general scenario by (simp add: scenario_db_def scenario_row_def)
qed

section \<open>Claims about dispatch\<close>

text \<open>
  Claim C10. On a successful dispatch of appointment \<open>i\<close> the only change to the record
  set is that the status of the target becomes \<^verbatim>\<open>sent\<close>: the list keeps its length and
  order, every record keeps its id, client name, phone number, date and time (and a row
  its \<^verbatim>\<open>created_at\<close>), and every record with another id keeps its status. In the
  browser (\<^verbatim>\<open>handleTrigger\<close>) a successful dispatch is: the id is in the list, a webhook
  URL is set and \<^verbatim>\<open>fetch\<close> resolves to a 2xx response; on the server
  (\<^verbatim>\<open>POST /api/trigger-reminder/:id\<close>) the same, with the row and the URL from the
  database.
\<close>

theorem dispatch_changes_only_status:
  "(find (\<lambda>a. id' a = i) (appointments st) = Some appt \<and>
    n8n_webhook_url (settings st) \<noteq> [] \<and>
    fst (fetch (webhook_request (n8n_webhook_url (settings st)) appt) (net w)) = Inr res \<and>
    ok res \<longrightarrow>
      only_status_changed i (appointments st) (appointments (fst (handleTrigger fetch i st w))))
   \<and>
   (find (\<lambda>r. id' r = j) (appointments_table (database s)) = Some a \<and>
    settings_table (database s) ''n8n_webhook_url'' = Some u \<and> u \<noteq> [] \<and>
    fst (post u a (network s)) = Inr res' \<and> ok res' \<longrightarrow>
      only_status_changed j (appointments_table (database s))
        (appointments_table (database (snd (trigger_reminder post j s)))))"
proof (intro conjI impI)
  assume "find (\<lambda>a. id' a = i) (appointments st) = Some appt \<and>
    n8n_webhook_url (settings st) \<noteq> [] \<and>
    fst (fetch (webhook_request (n8n_webhook_url (settings st)) appt) (net w)) = Inr res \<and>
    ok res"
  then have "appointments (fst (handleTrigger fetch i st w)) =
      map (\<lambda>a. if id' a = i then a\<lparr>status := Sent\<rparr> else a) (appointments st)"
    by (simp add: handleTrigger_ok)
  then show "only_status_changed i (appointments st)
               (appointments (fst (handleTrigger fetch i st w)))"
    by (simp add: mark_only_status)
next
  assume "find (\<lambda>r. id' r = j) (appointments_table (database s)) = Some a \<and>
    settings_table (database s) ''n8n_webhook_url'' = Some u \<and> u \<noteq> [] \<and>
    fst (post u a (network s)) = Inr res' \<and> ok res'"
  then have "appointments_table (database (snd (trigger_reminder post j s))) =
      map (\<lambda>r. if id' r = j then r\<lparr>status := Sent\<rparr> else r) (appointments_table (database s))"
    by (simp add: trigger_reminder_ok)
  then show "only_status_changed j (appointments_table (database s))
               (appointments_table (database (snd (trigger_reminder post j s))))"
    by (simp add: mark_only_status)
qed

theorem dispatch_changes_only_status_witness:
  "only_status_changed (id' ana) [ana, zhang]
     (appointments (fst (handleTrigger (answering 200) (id' ana)
        (app_with (DEFAULT_SETTINGS\<lparr>n8n_webhook_url := js ''https://n8n.example/webhook/remind''\<rparr>)
           [ana, zhang])
        (world_with () Map.empty))))
   \<and> only_status_changed 2 (appointments_table scenario_db)
        (appointments_table (database (snd (trigger_reminder (webhook_answering 204) 2
           (server_with scenario_db)))))"
proof -
  let ?st = "app_with (DEFAULT_SETTINGS\<lparr>n8n_webhook_url := js ''https://n8n.example/webhook/remind''\<rparr>)
               [ana, zhang]"
  let ?w = "world_with () Map.empty"
  let ?res = "json_response 200 ''status'' []"
  have c1: "find (\<lambda>a. id' a = id' ana) (appointments ?st) = Some ana"
    by (simp add: app_with_def)
  have c2: "n8n_webhook_url (settings ?st) \<noteq> []"
    by (simp add: app_with_def DEFAULT_SETTINGS_def js_def)
  have c3: "fst (answering 200 (webhook_request (n8n_webhook_url (settings ?st)) ana) (net ?w))
              = Inr ?res"
    by (simp add: answering_def)
  have c4: "ok ?res" by (simp add: ok_def json_response_def)
  have s1: "find (\<lambda>r. id' r = 2) (appointments_table (database (server_with scenario_db)))
              = Some (scenario_row 2 ''2025-03-01'')"
    by (simp add: server_with_def scenario_db_def scenario_row_def)
  have s2: "settings_table (database (server_with scenario_db)) ''n8n_webhook_url''
              = Some ''https://n8n.example/webhook/remind''"
    by (simp add: server_with_def scenario_db_def)
  have s3: "''https://n8n.example/webhook/remind'' \<noteq> []" by simp
  have s4: "fst (webhook_answering 204 ''https://n8n.example/webhook/remind''
              (scenario_row 2 ''2025-03-01'') (network (server_with scenario_db)))
            = Inr (json_response 204 ''status'' [])"
    by (simp add: webhook_answering_def)
  have s5: "ok (json_response 204 ''status'' [])" by (simp add: ok_def json_response_def)
  from dispatch_changes_only_status[of "id' ana" ?st ana "answering 200" ?w ?res 2
      "server_with scenario_db" "scenario_row 2 ''2025-03-01''"
      "''https://n8n.example/webhook/remind''"
      "webhook_answering 204" "json_response 204 ''status'' []"]
    c1 c2 c3 c4 s1 s2 s3 s4 s5
  show ?thesis by (simp add: app_with_def server_with_def)
qed

text \<open>
  Claim C9. Marking an appointment sent is idempotent. The code has no separate
  \<^verbatim>\<open>markSent\<close>: the status is set in the success branch of the trigger. Once a
  dispatch of a present id has succeeded, a second trigger of the same id, whatever the
  network then does (\<open>fetch2\<close>, \<open>post2\<close> are arbitrary), leaves the record set as the
  first call left it. In the browser and on the server.
\<close>

theorem markSent_idempotent:
  "(find (\<lambda>a. id' a = i) (appointments st) = Some appt \<and>
    n8n_webhook_url (settings st) \<noteq> [] \<and>
    fst (fetch (webhook_request (n8n_webhook_url (settings st)) appt) (net w)) = Inr res \<and>
    ok res \<longrightarrow>
      appointments (fst (handleTrigger fetch2 i (fst (handleTrigger fetch i st w))
                           (snd (handleTrigger fetch i st w))))
        = appointments (fst (handleTrigger fetch i st w)))
   \<and>
   (find (\<lambda>r. id' r = j) (appointments_table (database s)) = Some a \<and>
    settings_table (database s) ''n8n_webhook_url'' = Some u \<and> u \<noteq> [] \<and>
    fst (post u a (network s)) = Inr res' \<and> ok res' \<longrightarrow>
      appointments_table (database (snd (trigger_reminder post2 j
                                           (snd (trigger_reminder post j s)))))
        = appointments_table (database (snd (trigger_reminder post j s))))"
proof (intro conjI impI)
  assume h: "find (\<lambda>a. id' a = i) (appointments st) = Some appt \<and>
    n8n_webhook_url (settings st) \<noteq> [] \<and>
    fst (fetch (webhook_request (n8n_webhook_url (settings st)) appt) (net w)) = Inr res \<and>
    ok res"
  let ?st1 = "fst (handleTrigger fetch i st w)" and ?w1 = "snd (handleTrigger fetch i st w)"
  have one: "appointments ?st1 =
      map (\<lambda>a. if id' a = i then a\<lparr>status := Sent\<rparr> else a) (appointments st)"
    using h by (simp add: handleTrigger_ok)
  from handleTrigger_appointments_cases[of fetch2 i ?st1 ?w1]
  show "appointments (fst (handleTrigger fetch2 i ?st1 ?w1)) = appointments ?st1"
    by (auto simp: one mark_idem)
next
  assume h: "find (\<lambda>r. id' r = j) (appointments_table (database s)) = Some a \<and>
    settings_table (database s) ''n8n_webhook_url'' = Some u \<and> u \<noteq> [] \<and>
    fst (post u a (network s)) = Inr res' \<and> ok res'"
  let ?s1 = "snd (trigger_reminder post j s)"
  have one: "appointments_table (database ?s1) =
      map (\<lambda>r. if id' r = j then r\<lparr>status := Sent\<rparr> else r) (appointments_table (database s))"
    using h by (simp add: trigger_reminder_ok)
  from trigger_reminder_table_cases[of post2 j ?s1]
  show "appointments_table (database (snd (trigger_reminder post2 j ?s1)))
          = appointments_table (database ?s1)"
    by (auto simp: one mark_idem)
qed

text \<open>Two successful dispatches of \<open>ana\<close> in the browser, and of row 2 on the server.\<close>

theorem markSent_idempotent_witness:
  "appointments (fst (handleTrigger (answering 200) (id' ana)
       (fst (handleTrigger (answering 200) (id' ana) (app_with remote_settings [ana, zhang])
               (world_with () Map.empty)))
       (snd (handleTrigger (answering 200) (id' ana) (app_with remote_settings [ana, zhang])
               (world_with () Map.empty)))))
     = appointments (fst (handleTrigger (answering 200) (id' ana)
         (app_with remote_settings [ana, zhang]) (world_with () Map.empty)))
   \<and> appointments_table (database (snd (trigger_reminder (webhook_answering 200) 2
         (snd (trigger_reminder (webhook_answering 200) 2 (server_with scenario_db))))))
     = appointments_table (database (snd (trigger_reminder (webhook_answering 200) 2
         (server_with scenario_db))))"
proof -
  let ?st = "app_with remote_settings [ana, zhang]"
  let ?w = "world_with () Map.empty"
  let ?res = "json_response 200 ''status'' []"
  let ?u = "''https://n8n.example/webhook/remind''"
  have c1: "find (\<lambda>a. id' a = id' ana) (appointments ?st) = Some ana"
    by (simp add: app_with_def)
  have c2: "n8n_webhook_url (settings ?st) \<noteq> []"
    by (simp add: app_with_def remote_settings_def js_def)
  have c3: "fst (answering 200 (webhook_request (n8n_webhook_url (settings ?st)) ana) (net ?w))
              = Inr ?res"
    by (simp add: answering_def)
  have c4: "ok ?res" by (simp add: ok_def json_response_def)
  have s1: "find (\<lambda>r. id' r = 2) (appointments_table (database (server_with scenario_db)))
              = Some (scenario_row 2 ''2025-03-01'')"
    by (simp add: server_with_def scenario_db_def scenario_row_def)
  have s2: "settings_table (database (server_with scenario_db)) ''n8n_webhook_url'' = Some ?u"
    by (simp add: server_with_def scenario_db_def)
  have s3: "?u \<noteq> []" by simp
  have s4: "fst (webhook_answering 200 ?u (scenario_row 2 ''2025-03-01'')
                   (network (server_with scenario_db))) = Inr ?res"
    by (simp add: webhook_answering_def)
  from markSent_idempotent[of "id' ana" ?st ana "answering 200" ?w ?res "answering 200" 2
      "server_with scenario_db" "scenario_row 2 ''2025-03-01''" ?u
      "webhook_answering 200" ?res "webhook_answering 200"]
    c1 c2 c3 c4 s1 s2 s3 s4
  show ?thesis by blast
qed

text \<open>
  Claim C7. When the id is present, a webhook URL is configured and the webhook answers
  with a status outside 2xx, the trigger fails with the status code and changes nothing.
  In the browser \<^verbatim>\<open>handleTrigger\<close> reports the failure by the alert
  \<^verbatim>\<open>n8n error: <status>\<close>; the state is returned as it was and the world has gained only
  the request and the alert, so \<^verbatim>\<open>localStorage\<close> and the remote store are untouched.
  On the server the route answers 502 with \<^verbatim>\<open>n8n returned an error: <status>\<close> when the
  body of the response could be read, and the database is as it was whether or not it
  could.
\<close>

theorem rejected_dispatch_changes_nothing:
  "(find (\<lambda>a. id' a = i) (appointments st) = Some appt \<and>
    n8n_webhook_url (settings st) \<noteq> [] \<and>
    fetch (webhook_request (n8n_webhook_url (settings st)) appt) (net w) = (Inr res, n') \<and>
    \<not> ok res \<longrightarrow>
      handleTrigger fetch i st w =
        (st, w\<lparr>net := n',
               events := events w @
                 [Fetch (webhook_request (n8n_webhook_url (settings st)) appt),
                  Alert (js ''n8n error: '' @ js (show_int (int (status_code res))))]\<rparr>))
   \<and>
   (find (\<lambda>r. id' r = j) (appointments_table (database s)) = Some a \<and>
    settings_table (database s) ''n8n_webhook_url'' = Some u \<and> u \<noteq> [] \<and>
    post u a (network s) = (Inr res', m') \<and> \<not> ok res' \<longrightarrow>
      database (snd (trigger_reminder post j s)) = database s \<and>
      (text_body res' = Inr t \<longrightarrow>
         trigger_reminder post j s =
           (\<lparr>code = 502,
             content = ErrorMessage (''n8n returned an error: ''
                                      @ show_int (int (status_code res')))\<rparr>,
            s\<lparr>network := m',
              journal := journal s @ [Posted u a, Logged ''n8n error response:'']\<rparr>)))"
proof (intro conjI impI)
  assume h: "find (\<lambda>a. id' a = i) (appointments st) = Some appt \<and>
    n8n_webhook_url (settings st) \<noteq> [] \<and>
    fetch (webhook_request (n8n_webhook_url (settings st)) appt) (net w) = (Inr res, n') \<and>
    \<not> ok res"
  then have "do_fetch fetch (webhook_request (n8n_webhook_url (settings st)) appt) w =
      (Inr res, w\<lparr>net := n', events := events w @
                    [Fetch (webhook_request (n8n_webhook_url (settings st)) appt)]\<rparr>)"
    by (simp add: do_fetch_def)
  with h show "handleTrigger fetch i st w =
        (st, w\<lparr>net := n',
               events := events w @
                 [Fetch (webhook_request (n8n_webhook_url (settings st)) appt),
                  Alert (js ''n8n error: '' @ js (show_int (int (status_code res))))]\<rparr>)"
    by (simp add: handleTrigger_def alert_def)
next
  assume h: "find (\<lambda>r. id' r = j) (appointments_table (database s)) = Some a \<and>
    settings_table (database s) ''n8n_webhook_url'' = Some u \<and> u \<noteq> [] \<and>
    post u a (network s) = (Inr res', m') \<and> \<not> ok res'"
  then have f: "server_fetch post u a s =
      (Inr res', s\<lparr>network := m', journal := journal s @ [Posted u a]\<rparr>)"
    by (simp add: server_fetch_def)
  from h f show "database (snd (trigger_reminder post j s)) = database s"
    by (simp add: trigger_reminder_def catch_trigger_error_def split: sum.splits)
next
  assume h: "find (\<lambda>r. id' r = j) (appointments_table (database s)) = Some a \<and>
    settings_table (database s) ''n8n_webhook_url'' = Some u \<and> u \<noteq> [] \<and>
    post u a (network s) = (Inr res', m') \<and> \<not> ok res'"
    and t: "text_body res' = Inr t"
  from h have f: "server_fetch post u a s =
      (Inr res', s\<lparr>network := m', journal := journal s @ [Posted u a]\<rparr>)"
    by (simp add: server_fetch_def)
  from h f t show "trigger_reminder post j s =
           (\<lparr>code = 502,
             content = ErrorMessage (''n8n returned an error: ''
                                      @ show_int (int (status_code res')))\<rparr>,
            s\<lparr>network := m',
              journal := journal s @ [Posted u a, Logged ''n8n error response:'']\<rparr>)"
    by (simp add: trigger_reminder_def)
qed

text \<open>The webhook answers 500: \<open>ana\<close> stays pending, and so does row 2.\<close>

theorem rejected_dispatch_changes_nothing_witness:
  "handleTrigger (answering 500) (id' ana) (app_with remote_settings [ana, zhang])
       (world_with () Map.empty)
     = (app_with remote_settings [ana, zhang],
        (world_with () Map.empty)
          \<lparr>net := (),
           events := events (world_with () Map.empty) @
             [Fetch (webhook_request
                       (n8n_webhook_url (settings (app_with remote_settings [ana, zhang]))) ana),
              Alert (js ''n8n error: '' @ js ''500'')]\<rparr>)
   \<and> status ana = Pending
   \<and> trigger_reminder (webhook_answering 500) 2 (server_with scenario_db)
     = (\<lparr>code = 502, content = ErrorMessage ''n8n returned an error: 500''\<rparr>,
        (server_with scenario_db)
          \<lparr>network := (),
           journal := journal (server_with scenario_db) @
             [Posted ''https://n8n.example/webhook/remind'' (scenario_row 2 ''2025-03-01''),
              Logged ''n8n error response:'']\<rparr>)"
proof -
  let ?st = "app_with remote_settings [ana, zhang]"
  let ?w = "world_with () Map.empty"
  let ?res = "json_response 500 ''status'' []"
  let ?u = "''https://n8n.example/webhook/remind''"
  have c1: "find (\<lambda>a. id' a = id' ana) (appointments ?st) = Some ana"
    by (simp add: app_with_def)
  have c2: "n8n_webhook_url (settings ?st) \<noteq> []"
    by (simp add: app_with_def remote_settings_def js_def)
  have c3: "answering 500 (webhook_request (n8n_webhook_url (settings ?st)) ana) (net ?w)
              = (Inr ?res, ())"
    by (simp add: answering_def)
  have c4: "\<not> ok ?res" by (simp add: ok_def json_response_def)
  have s1: "find (\<lambda>r. id' r = 2) (appointments_table (database (server_with scenario_db)))
              = Some (scenario_row 2 ''2025-03-01'')"
    by (simp add: server_with_def scenario_db_def scenario_row_def)
  have s2: "settings_table (database (server_with scenario_db)) ''n8n_webhook_url'' = Some ?u"
    by (simp add: server_with_def scenario_db_def)
  have s3: "?u \<noteq> []" by simp
  have s4: "webhook_answering 500 ?u (scenario_row 2 ''2025-03-01'')
              (network (server_with scenario_db)) = (Inr ?res, ())"
    by (simp add: webhook_answering_def)
  have s5: "text_body ?res = Inr []" by (simp add: json_response_def)
  have n: "show_int (int (status_code ?res)) = ''500''"
    by (simp add: json_response_def show_int_def show_digits.simps)
  have p: "status ana = Pending" by (simp add: ana_def)
  from rejected_dispatch_changes_nothing[of "id' ana" ?st ana "answering 500" ?w ?res "()" 2
      "server_with scenario_db" "scenario_row 2 ''2025-03-01''" ?u
      "webhook_answering 500" ?res "()" "[]"]
    c1 c2 c3 c4 s1 s2 s3 s4 s5 n p
  show ?thesis by simp
qed

end
